theory Spec2Isabelle
  imports Main "HOL-Library.Char_ord" "HOL-Library.Sublist"
begin

section \<open>JavaScript values used by the export pipeline\<close>

text \<open>
  Strings are lists of characters; one \<^typ>\<open>char\<close> stands for one code unit of the
  JavaScript string, which is what the regular expressions of the source (written without
  the \<^verbatim>\<open>u\<close> flag) replace one at a time.  A \<^typ>\<open>char\<close> has eight bits, so the
  strings of the model are those whose code units are below 256.  An optional field of a
  remote record is a \<^typ>\<open>string option\<close>; \<^verbatim>\<open>undefined\<close> is \<^term>\<open>None\<close>.
\<close>

type_synonym warnings = "string list"

text \<open>A value in a \<^verbatim>\<open>catch\<close> clause: an \<^verbatim>\<open>Error\<close> object with its message, a
  \<^verbatim>\<open>TypeError\<close> raised by the runtime, or any other thrown value (given by its
  \<^verbatim>\<open>String(...)\<close> form).\<close>

datatype js_error = JsError string | JsTypeError string | JsThrown string

text \<open>\<^verbatim>\<open>err instanceof Error ? err.message : String(err)\<close>\<close>

fun errMessage :: "js_error \<Rightarrow> string" where
  "errMessage (JsError m) = m"
| "errMessage (JsTypeError m) = m"
| "errMessage (JsThrown s) = s"

text \<open>The interpolation \<^verbatim>\<open>${error}\<close>, that is \<^verbatim>\<open>String(error)\<close>.\<close>

fun errString :: "js_error \<Rightarrow> string" where
  "errString (JsError m) = (if m = [] then ''Error'' else ''Error: '' @ m)"
| "errString (JsTypeError m) = (if m = [] then ''TypeError'' else ''TypeError: '' @ m)"
| "errString (JsThrown s) = s"

text \<open>Truthiness of an optional string: present and not empty.\<close>

fun truthy :: "string option \<Rightarrow> bool" where
  "truthy None = False"
| "truthy (Some s) = (s \<noteq> [])"

text \<open>\<^verbatim>\<open>x || ''\<close>\<close>

fun orEmpty :: "string option \<Rightarrow> string" where
  "orEmpty None = []"
| "orEmpty (Some s) = s"

text \<open>The interpolation \<^verbatim>\<open>${x}\<close> of an optional string.\<close>

fun interp :: "string option \<Rightarrow> string" where
  "interp None = ''undefined''"
| "interp (Some s) = s"

text \<open>\<^verbatim>\<open>Array.prototype.join\<close>\<close>

fun join :: "string \<Rightarrow> string list \<Rightarrow> string" where
  "join sep [] = []"
| "join sep [x] = x"
| "join sep (x # y # ys) = x @ sep @ join sep (y # ys)"

text \<open>\<^verbatim>\<open>String.prototype.startsWith\<close> and \<^verbatim>\<open>String.prototype.includes\<close>\<close>

definition startsWith :: "string \<Rightarrow> string \<Rightarrow> bool" where
  "startsWith s p = (take (length p) s = p)"

fun includesStr :: "string \<Rightarrow> string \<Rightarrow> bool" where
  "includesStr [] needle = (needle = [])"
| "includesStr (c # cs) needle = (startsWith (c # cs) needle \<or> includesStr cs needle)"

text \<open>\<^verbatim>\<open>String.prototype.toLowerCase\<close>, on the letters A to Z.  The other letters
  below 256 lower to characters outside ASCII again, and every lowered string of the
  source is either compared with ASCII strings (the keys of the type table, the two
  built-in phrases) or passed through a replacement that turns every character outside
  ASCII into an underscore, so leaving those letters as they are changes no result.\<close>

definition lowerChar :: "char \<Rightarrow> char" where
  "lowerChar c =
     (case map_of (zip ''ABCDEFGHIJKLMNOPQRSTUVWXYZ'' ''abcdefghijklmnopqrstuvwxyz'') c of
        None \<Rightarrow> c
      | Some l \<Rightarrow> l)"

definition toLowerCase :: "string \<Rightarrow> string" where
  "toLowerCase s = map lowerChar s"

text \<open>\<^verbatim>\<open>content.trim()\<close> is empty exactly when every character is white space.\<close>

definition isSpace :: "char \<Rightarrow> bool" where
  "isSpace c = (c \<in> set [CHR '' '', CHR 0x09, CHR 0x0A, CHR 0x0B, CHR 0x0C, CHR 0x0D, CHR 0xA0])"

definition trimIsEmpty :: "string \<Rightarrow> bool" where
  "trimIsEmpty s = list_all isSpace s"

section \<open>The identifier sanitizer (\<^verbatim>\<open>createSafeId\<close>, export.tsx)\<close>

text \<open>The character class \<^verbatim>\<open>[a-zA-Z0-9_]\<close>.\<close>

definition isIdChar :: "char \<Rightarrow> bool" where
  "isIdChar c =
     ((CHR ''a'' \<le> c \<and> c \<le> CHR ''z'') \<or> (CHR ''A'' \<le> c \<and> c \<le> CHR ''Z'') \<or>
      (CHR ''0'' \<le> c \<and> c \<le> CHR ''9'') \<or> c = CHR ''_'')"

text \<open>\<^verbatim>\<open>part.replace(/[^a-zA-Z0-9_]/g, '_')\<close>\<close>

definition replaceNonId :: "string \<Rightarrow> string" where
  "replaceNonId s = map (\<lambda>c. if isIdChar c then c else CHR ''_'') s"

text \<open>
  \<^verbatim>\<open>parts.map(part => (part || '').replace(...)).filter(Boolean).join('_')\<close>.
  The parts are strings, as the signature declares them; on a string \<^verbatim>\<open>part || ''\<close>
  is the string itself.  A caller that may hold \<^verbatim>\<open>undefined\<close> passes
  \<^term>\<open>orEmpty\<close> of its field.
\<close>

definition createSafeId :: "string list \<Rightarrow> string" where
  "createSafeId parts = join ''_'' (filter (\<lambda>p. p \<noteq> []) (map replaceNonId parts))"

section \<open>Remote records and the API client\<close>

text \<open>A JSON value, for the opaque \<^verbatim>\<open>conditions\<close> of a condition set.\<close>

datatype json = JUndefined | JNull | JBool bool | JNum int | JStr string
  | JArr "json list" | JObj "(string \<times> json) list"

fun jsFalsy :: "json \<Rightarrow> bool" where
  "jsFalsy JUndefined = True"
| "jsFalsy JNull = True"
| "jsFalsy (JBool b) = (\<not> b)"
| "jsFalsy (JNum n) = (n = 0)"
| "jsFalsy (JStr s) = (s = [])"
| "jsFalsy (JArr xs) = False"
| "jsFalsy (JObj kvs) = False"

text \<open>\<^verbatim>\<open>set.conditions || {}\<close>\<close>

definition conditionsOrEmpty :: "json \<Rightarrow> json" where
  "conditionsOrEmpty c = (if jsFalsy c then JObj [] else c)"

text \<open>An object with string keys is the list of its entries, in the order
  \<^verbatim>\<open>Object.entries\<close> gives them.\<close>

record action_block =
  ab_name :: string
  ab_description :: "string option"

record attribute_block =
  atb_type :: string
  atb_description :: "string option"

record resource_read =
  rs_key :: string
  rs_name :: string
  rs_description :: "string option"
  rs_urn :: "string option"
  rs_actions :: "(string \<times> action_block) list"
  rs_attributes :: "(string \<times> attribute_block) list option"

record relation_read =
  rl_key :: string
  rl_name :: string
  rl_description :: "string option"
  rl_subject_resource :: string
  rl_object_resource :: string

text \<open>The relations endpoint answers with an array or with a paginated object whose
  \<^verbatim>\<open>data\<close> may be missing.\<close>

datatype relations_response = RelationsArray "relation_read list"
  | RelationsPage "relation_read list option"

record role_read =
  ro_key :: string
  ro_name :: string
  ro_description :: "string option"
  ro_permissions :: "string list option"
  ro_extends :: "string list option"

text \<open>An entry of \<^verbatim>\<open>granted_to.users_with_role\<close>, and a role of a resource; a role
  without \<^verbatim>\<open>granted_to\<close> or without \<^verbatim>\<open>users_with_role\<close> has no entries.\<close>

record grant_info =
  gr_role :: string
  gr_on_resource :: string
  gr_linked_by_relation :: string

record resource_role_read =
  rr_key :: string
  rr_users_with_role :: "grant_info list"

record attribute_read =
  ar_key :: string
  ar_type :: string
  ar_description :: "string option"

record condition_set =
  cs_key :: "string option"
  cs_name :: "string option"
  cs_description :: "string option"
  cs_type :: string
  cs_conditions :: json
  cs_resource_id :: "string option"

record cs_rule =
  ru_user_set :: "string option"
  ru_resource_set :: "string option"
  ru_permission :: "string option"

datatype js_param = PStr string | PNum nat

text \<open>The client \<^verbatim>\<open>permit.api\<close>: what each endpoint answers, or the error it throws.\<close>

record permit_api =
  resources_list :: "js_error + resource_read list"
  resources_get :: "string \<Rightarrow> js_error + resource_read option"
  resourceRelations_list :: "string \<Rightarrow> js_error + relations_response"
  resourceRoles_list :: "string \<Rightarrow> js_error + resource_role_read list"
  roles_list :: "js_error + role_read list"
  resourceAttributes_list :: "string \<Rightarrow> js_error + attribute_read list"
  conditionSets_list :: "js_error + condition_set list"
  conditionSetRules_list :: "(string \<times> js_param) list \<Rightarrow> js_error + cs_rule list"

text \<open>\<^verbatim>\<open>JSON.stringify\<close> is the runtime's; the export takes it as given.\<close>

record externals =
  stringifyStrings :: "string list \<Rightarrow> string"
  stringifyPretty :: "json \<Rightarrow> string"
  stringifyCompact :: "json \<Rightarrow> string"
  stringifySet :: "condition_set \<Rightarrow> string"
  stringifyRule :: "cs_rule \<Rightarrow> string"

section \<open>The export command (\<^verbatim>\<open>exportConfig\<close>, export.tsx)\<close>

record ExportState =
  status :: string
  isComplete :: bool
  error :: "string option"
  warnings :: "string list"

definition addWarning :: "string \<Rightarrow> ExportState \<Rightarrow> ExportState" where
  "addWarning w st = st\<lparr>warnings := warnings st @ [w], status := ''Warning: '' @ w\<rparr>"

record scope =
  sc_environment_id :: "string option"
  sc_project_id :: "string option"
  sc_organization_id :: "string option"

record scope_result =
  valid :: bool
  sr_error :: "string option"
  sr_scope :: "scope option"

text \<open>The places where the run reads \<^verbatim>\<open>isSubscribed\<close>.\<close>

datatype checkpoint = AfterValidation | BeforeSink | AfterSink | InCatch

text \<open>What a run is given: the two options of the command (\<^verbatim>\<open>filePath\<close> is the
  option \<^verbatim>\<open>file\<close>), the session token, the scope validation, the client and the file
  system.\<close>

record run_env =
  apiKey :: "string option"
  authToken :: "string option"
  filePath :: "string option"
  validateApiKeyScope :: "string \<Rightarrow> string \<Rightarrow> js_error + scope_result"
  permit :: permit_api
  writeFile :: "string \<Rightarrow> string \<Rightarrow> js_error option"
  isSubscribed :: "checkpoint \<Rightarrow> bool"

text \<open>What reached the sink: nothing, a file and its content, or standard output.\<close>

datatype sink = NoOutput | FileWritten string string | Printed string

fun sinkText :: "sink \<Rightarrow> string option" where
  "sinkText NoOutput = None"
| "sinkText (FileWritten path content) = Some content"
| "sinkText (Printed content) = Some content"

text \<open>\<^verbatim>\<open>scope?.environment_id || 'unknown'\<close>\<close>

definition orUnknown :: "scope option \<Rightarrow> (scope \<Rightarrow> string option) \<Rightarrow> string" where
  "orUnknown sc f =
     (case sc of None \<Rightarrow> ''unknown''
      | Some s \<Rightarrow> if truthy (f s) then orEmpty (f s) else ''unknown'')"

text \<open>The head of the artifact is one template literal: the comment lines and the
  \<^verbatim>\<open>terraform\<close> block, then the provider block with the key.\<close>

definition preamble :: "scope option \<Rightarrow> string" where
  \<open>preamble sc =
     ''# Generated by Permit CLI\<newline># Environment: '' @ orUnknown sc sc_environment_id
     @ ''\<newline># Project: '' @ orUnknown sc sc_project_id
     @ ''\<newline># Organization: '' @ orUnknown sc sc_organization_id
     @ ''\<newline>\<newline>terraform {\<newline>  required_providers {\<newline>    permitio = {\<newline>''
     @ ''      source = "permitio/permit-io"\<newline>      version = "~> 0.1.0"\<newline>''
     @ ''    }\<newline>  }\<newline>}\<newline>\<newline>''\<close>

definition header :: "string \<Rightarrow> scope option \<Rightarrow> string" where
  \<open>header key sc =
     preamble sc @ ''provider "permitio" {\<newline>  api_key = "'' @ key @ ''"\<newline>}\<newline>''\<close>

text \<open>An optional line of a block: \<^verbatim>\<open>${v ? `<label>${v}"` : ''}\<close>.\<close>

definition optLine :: "string \<Rightarrow> string option \<Rightarrow> string" where
  \<open>optLine label v = (if truthy v then label @ orEmpty v @ ''"'' else [])\<close>

definition actionEntry :: "string \<times> action_block \<Rightarrow> string" where
  \<open>actionEntry e =
     ''\<newline>    "'' @ fst e @ ''" = {\<newline>      name = "'' @ ab_name (snd e) @ ''"''
     @ optLine ''\<newline>      description = "'' (ab_description (snd e)) @ ''\<newline>    }''\<close>

definition attributeEntry :: "string \<times> attribute_block \<Rightarrow> string" where
  \<open>attributeEntry e =
     ''\<newline>    "'' @ fst e @ ''" = {\<newline>      type = "'' @ atb_type (snd e) @ ''"''
     @ optLine ''\<newline>      description = "'' (atb_description (snd e)) @ ''\<newline>    }''\<close>

definition attributesPart :: "(string \<times> attribute_block) list option \<Rightarrow> string" where
  \<open>attributesPart attrs =
     (case attrs of None \<Rightarrow> []
      | Some as \<Rightarrow> if as \<noteq> []
          then ''\<newline>  attributes = {'' @ concat (map attributeEntry as) @ ''\<newline>  }''
          else [])\<close>

definition resourceBlock :: "resource_read \<Rightarrow> string" where
  \<open>resourceBlock r =
     ''resource "permitio_resource" "'' @ createSafeId [rs_key r] @ ''" {\<newline>  key  = "''
     @ rs_key r @ ''"\<newline>  name = "'' @ rs_name r @ ''"''
     @ optLine ''\<newline>  description = "'' (rs_description r)
     @ optLine ''\<newline>  urn = "'' (rs_urn r)
     @ ''\<newline>  actions = {'' @ concat (map actionEntry (rs_actions r)) @ ''\<newline>  }''
     @ attributesPart (rs_attributes r) @ ''\<newline>}\<newline>''\<close>

text \<open>\<^verbatim>\<open>resources.filter(resource => resource.key !== '__user')\<close>\<close>

definition validResources :: "resource_read list \<Rightarrow> resource_read list" where
  "validResources resources = filter (\<lambda>resource. rs_key resource \<noteq> ''__user'') resources"

definition resourcesSection :: "resource_read list \<Rightarrow> string" where
  "resourcesSection vs =
     (if vs \<noteq> [] then ''\<newline># Resources\<newline>'' @ concat (map resourceBlock vs) else [])"

definition relationBlock :: "resource_read \<Rightarrow> relation_read \<Rightarrow> string" where
  \<open>relationBlock resource relation =
     ''resource "permitio_relation" "'' @ createSafeId [rs_key resource, rl_key relation]
     @ ''" {\<newline>  key = "'' @ rl_key relation @ ''"\<newline>  name = "'' @ rl_name relation
     @ ''"\<newline>  subject_resource = "'' @ rs_key resource
     @ ''"\<newline>  object_resource = "'' @ rl_object_resource relation @ ''"''
     @ optLine ''\<newline>  description = "'' (rl_description relation) @ ''\<newline>}\<newline>''\<close>

text \<open>The loop over the valid resources inside the relations \<^verbatim>\<open>try\<close>: the text
  appended so far stays when a listing throws.\<close>

fun exportRelations ::
  "(string \<Rightarrow> js_error + relations_response) \<Rightarrow> resource_read list \<Rightarrow> string
   \<Rightarrow> string \<times> js_error option" where
  "exportRelations list [] hcl = (hcl, None)"
| "exportRelations list (resource # rest) hcl =
     (case list (rs_key resource) of
        Inl err \<Rightarrow> (hcl, Some err)
      | Inr (RelationsArray relations) \<Rightarrow>
          exportRelations list rest
            (if relations \<noteq> []
             then hcl @ ''\<newline># Resource Relations for '' @ rs_key resource @ ''\<newline>''
                  @ concat (map (relationBlock resource) relations)
             else hcl)
      | Inr (RelationsPage d) \<Rightarrow> exportRelations list rest hcl)"

definition relationsPhase ::
  "permit_api \<Rightarrow> resource_read list \<Rightarrow> string \<Rightarrow> ExportState \<Rightarrow> string \<times> ExportState" where
  "relationsPhase api vs hcl st =
     (case exportRelations (resourceRelations_list api) vs hcl of
        (hcl', None) \<Rightarrow> (hcl', st)
      | (hcl', Some err) \<Rightarrow>
          (hcl', addWarning (''Failed to export resource relations: '' @ errString err) st))"

definition optArray :: "externals \<Rightarrow> string \<Rightarrow> string list option \<Rightarrow> string" where
  "optArray ext label v =
     (case v of None \<Rightarrow> []
      | Some xs \<Rightarrow> if xs \<noteq> [] then label @ stringifyStrings ext xs else [])"

definition roleBlock :: "externals \<Rightarrow> role_read \<Rightarrow> string" where
  \<open>roleBlock ext role =
     ''resource "permitio_role" "'' @ createSafeId [ro_key role] @ ''" {\<newline>  key  = "''
     @ ro_key role @ ''"\<newline>  name = "'' @ ro_name role @ ''"''
     @ optLine ''\<newline>  description = "'' (ro_description role)
     @ optArray ext ''\<newline>  permissions = '' (ro_permissions role)
     @ optArray ext ''\<newline>  extends = '' (ro_extends role) @ ''\<newline>}\<newline>''\<close>

definition rolesPhase ::
  "externals \<Rightarrow> permit_api \<Rightarrow> string \<Rightarrow> ExportState \<Rightarrow> string \<times> ExportState" where
  "rolesPhase ext api hcl st =
     (case roles_list api of
        Inl err \<Rightarrow> (hcl, addWarning (''Failed to export roles: '' @ errString err) st)
      | Inr roles \<Rightarrow>
          (if roles \<noteq> [] then hcl @ ''\<newline># Roles\<newline>'' @ concat (map (roleBlock ext) roles)
           else hcl, st))"

definition userAttributeBlock :: "attribute_read \<Rightarrow> string" where
  \<open>userAttributeBlock attr =
     ''resource "permitio_user_attribute" "'' @ createSafeId [ar_key attr]
     @ ''" {\<newline>  key = "'' @ ar_key attr @ ''"\<newline>  type = "'' @ ar_type attr @ ''"''
     @ optLine ''\<newline>  description = "'' (ar_description attr) @ ''\<newline>}\<newline>''\<close>

definition userAttributesPhase ::
  "permit_api \<Rightarrow> string \<Rightarrow> ExportState \<Rightarrow> string \<times> ExportState" where
  "userAttributesPhase api hcl st =
     (case resourceAttributes_list api ''__user'' of
        Inl err \<Rightarrow> (hcl, addWarning (''Failed to export user attributes: '' @ errString err) st)
      | Inr userAttributes \<Rightarrow>
          (if userAttributes \<noteq> []
           then hcl @ ''\<newline># User Attributes\<newline>'' @ concat (map userAttributeBlock userAttributes)
           else hcl, st))"

definition userSetBlock :: "externals \<Rightarrow> condition_set \<Rightarrow> string" where
  \<open>userSetBlock ext s =
     ''resource "permitio_user_set" "'' @ createSafeId [orEmpty (cs_key s)]
     @ ''" {\<newline>  key = "'' @ interp (cs_key s) @ ''"\<newline>  name = "'' @ interp (cs_name s) @ ''"''
     @ optLine ''\<newline>  description = "'' (cs_description s)
     @ ''\<newline>  conditions = jsonencode(''
     @ stringifyPretty ext (conditionsOrEmpty (cs_conditions s)) @ '')\<newline>}\<newline>''\<close>

text \<open>One turn of the loop over the user sets: an invalid set adds a warning and is
  skipped (\<^verbatim>\<open>continue\<close>), a valid one adds its block.\<close>

definition userSetStep ::
  "externals \<Rightarrow> condition_set \<Rightarrow> string \<times> ExportState \<Rightarrow> string \<times> ExportState" where
  "userSetStep ext s acc =
     (if \<not> truthy (cs_key s) \<or> \<not> truthy (cs_name s)
      then (fst acc, addWarning (''Invalid user set data: '' @ stringifySet ext s) (snd acc))
      else (fst acc @ userSetBlock ext s, snd acc))"

definition resourceSetBlock :: "externals \<Rightarrow> condition_set \<Rightarrow> string" where
  \<open>resourceSetBlock ext s =
     ''resource "permitio_resource_set" "'' @ createSafeId [orEmpty (cs_key s)]
     @ ''" {\<newline>  key = "'' @ interp (cs_key s) @ ''"\<newline>  name = "'' @ interp (cs_name s) @ ''"''
     @ optLine ''\<newline>  description = "'' (cs_description s)
     @ ''\<newline>  resource = "'' @ interp (cs_resource_id s)
     @ ''"\<newline>  conditions = jsonencode(''
     @ stringifyPretty ext (conditionsOrEmpty (cs_conditions s)) @ '')\<newline>}\<newline>''\<close>

definition resourceSetStep ::
  "externals \<Rightarrow> condition_set \<Rightarrow> string \<times> ExportState \<Rightarrow> string \<times> ExportState" where
  "resourceSetStep ext s acc =
     (if \<not> truthy (cs_key s) \<or> \<not> truthy (cs_name s) \<or> \<not> truthy (cs_resource_id s)
      then (fst acc, addWarning (''Invalid resource set data: '' @ stringifySet ext s) (snd acc))
      else (fst acc @ resourceSetBlock ext s, snd acc))"

definition ruleBlock :: "cs_rule \<Rightarrow> string" where
  \<open>ruleBlock rule =
     ''resource "permitio_condition_set_rule" "''
     @ createSafeId [orEmpty (ru_user_set rule), orEmpty (ru_permission rule),
                     orEmpty (ru_resource_set rule)]
     @ ''" {\<newline>  user_set = "'' @ interp (ru_user_set rule)
     @ ''"\<newline>  permission = "'' @ interp (ru_permission rule)
     @ ''"\<newline>  resource_set = "'' @ interp (ru_resource_set rule) @ ''"\<newline>}\<newline>''\<close>

definition ruleStep ::
  "externals \<Rightarrow> cs_rule \<Rightarrow> string \<times> ExportState \<Rightarrow> string \<times> ExportState" where
  "ruleStep ext rule acc =
     (if \<not> truthy (ru_user_set rule) \<or> \<not> truthy (ru_permission rule)
         \<or> \<not> truthy (ru_resource_set rule)
      then (fst acc, addWarning (''Invalid condition set rule: '' @ stringifyRule ext rule) (snd acc))
      else (fst acc @ ruleBlock rule, snd acc))"

text \<open>A section of the artifact: nothing for an empty list, else the header comment and
  one turn of the loop for each element.\<close>

definition loopSection ::
  "string \<Rightarrow> ('a \<Rightarrow> string \<times> ExportState \<Rightarrow> string \<times> ExportState) \<Rightarrow> 'a list
   \<Rightarrow> string \<times> ExportState \<Rightarrow> string \<times> ExportState" where
  "loopSection title step xs acc =
     (if xs \<noteq> [] then fold step xs (fst acc @ title, snd acc) else acc)"

definition userSetsOf :: "condition_set list \<Rightarrow> condition_set list" where
  "userSetsOf conditionSets = filter (\<lambda>s. cs_type s = ''userset'') conditionSets"

definition resourceSetsOf :: "condition_set list \<Rightarrow> condition_set list" where
  "resourceSetsOf conditionSets = filter (\<lambda>s. cs_type s = ''resourceset'') conditionSets"

text \<open>The condition sets \<^verbatim>\<open>try\<close>: user sets, resource sets and the rules share one
  \<^verbatim>\<open>catch\<close>.\<close>

definition conditionSetsPhase ::
  "externals \<Rightarrow> permit_api \<Rightarrow> string \<Rightarrow> ExportState \<Rightarrow> string \<times> ExportState" where
  "conditionSetsPhase ext api hcl st =
     (case conditionSets_list api of
        Inl err \<Rightarrow> (hcl, addWarning (''Failed to export condition sets: '' @ errString err) st)
      | Inr conditionSets \<Rightarrow>
          (let acc1 = loopSection ''\<newline># User Sets\<newline>'' (userSetStep ext)
                        (userSetsOf conditionSets) (hcl, st);
               acc2 = loopSection ''\<newline># Resource Sets\<newline>'' (resourceSetStep ext)
                        (resourceSetsOf conditionSets) acc1;
               st3 = (snd acc2)\<lparr>status := ''Exporting condition set rules...''\<rparr>
           in case conditionSetRules_list api
                     [(''userSetKey'', PStr []), (''permissionKey'', PStr []),
                      (''resourceSetKey'', PStr [])] of
                Inl err \<Rightarrow>
                  (fst acc2, addWarning (''Failed to export condition sets: '' @ errString err) st3)
              | Inr conditionSetRules \<Rightarrow>
                  loopSection ''\<newline># Condition Set Rules\<newline>'' (ruleStep ext)
                    conditionSetRules (fst acc2, st3)))"

text \<open>The outer \<^verbatim>\<open>catch\<close> of \<^verbatim>\<open>exportConfig\<close>.\<close>

definition outerCatch :: "run_env \<Rightarrow> js_error \<Rightarrow> ExportState \<Rightarrow> ExportState \<times> sink" where
  "outerCatch env err st =
     (if \<not> isSubscribed env InCatch then (st, NoOutput)
      else (st\<lparr>error := Some (''Failed to export configuration: '' @ errMessage err),
                isComplete := True\<rparr>, NoOutput))"

definition finishRun :: "run_env \<Rightarrow> ExportState \<Rightarrow> sink \<Rightarrow> ExportState \<times> sink" where
  "finishRun env st out =
     (if \<not> isSubscribed env AfterSink then (st, out) else (st\<lparr>isComplete := True\<rparr>, out))"

text \<open>Save or print the artifact.\<close>

definition writeSink :: "run_env \<Rightarrow> string \<Rightarrow> ExportState \<Rightarrow> ExportState \<times> sink" where
  "writeSink env hcl st =
     (if \<not> isSubscribed env BeforeSink then (st, NoOutput)
      else if truthy (filePath env)
      then (let st' = st\<lparr>status := ''Saving to file...''\<rparr>
            in case writeFile env (orEmpty (filePath env)) hcl of
                 Some err \<Rightarrow> outerCatch env err st'
               | None \<Rightarrow> finishRun env st' (FileWritten (orEmpty (filePath env)) hcl))
      else finishRun env st (Printed hcl))"

text \<open>The phases after the resources listing, each with its own \<^verbatim>\<open>try\<close>.\<close>

definition exportPhases ::
  "externals \<Rightarrow> permit_api \<Rightarrow> resource_read list \<Rightarrow> string \<Rightarrow> ExportState
   \<Rightarrow> string \<times> ExportState" where
  "exportPhases ext api vs hcl st =
     (case relationsPhase api vs hcl (st\<lparr>status := ''Exporting resource relations...''\<rparr>) of
        (hcl2, st2) \<Rightarrow>
     (case rolesPhase ext api hcl2 (st2\<lparr>status := ''Exporting roles...''\<rparr>) of
        (hcl3, st3) \<Rightarrow>
     (case userAttributesPhase api hcl3 (st3\<lparr>status := ''Exporting user attributes...''\<rparr>) of
        (hcl4, st4) \<Rightarrow>
      conditionSetsPhase ext api hcl4 (st4\<lparr>status := ''Exporting condition sets...''\<rparr>))))"

text \<open>From the client's construction on.  The resources listing stands in the outer
  \<^verbatim>\<open>try\<close> only.\<close>

definition exportBody ::
  "externals \<Rightarrow> run_env \<Rightarrow> string \<Rightarrow> scope option \<Rightarrow> ExportState \<Rightarrow> ExportState \<times> sink" where
  "exportBody ext env key sc st =
     (let hcl = header key sc;
          st1 = st\<lparr>status := ''Exporting resources...''\<rparr>
      in case resources_list (permit env) of
           Inl err \<Rightarrow> outerCatch env err st1
         | Inr resources \<Rightarrow>
             (case exportPhases ext (permit env) (validResources resources)
                     (hcl @ resourcesSection (validResources resources)) st1 of
                (hcl', st') \<Rightarrow> writeSink env hcl' st'))"

text \<open>\<^verbatim>\<open>const key = apiKey || authToken\<close>\<close>

definition resolveKey :: "run_env \<Rightarrow> string option" where
  "resolveKey env = (if truthy (apiKey env) then apiKey env else authToken env)"

definition exportConfig :: "externals \<Rightarrow> run_env \<Rightarrow> ExportState \<Rightarrow> ExportState \<times> sink" where
  "exportConfig ext env st =
     (if \<not> truthy (resolveKey env)
      then (st\<lparr>error := Some ''No API key provided. Please provide a key or login first.'',
                isComplete := True\<rparr>, NoOutput)
      else
        (let key = orEmpty (resolveKey env);
             st1 = st\<lparr>status := ''Validating API key...''\<rparr>
         in case validateApiKeyScope env key ''environment'' of
              Inl err \<Rightarrow> outerCatch env err st1
            | Inr res \<Rightarrow>
                if \<not> valid res \<or> truthy (sr_error res)
                then (st1\<lparr>error := Some (''Invalid API key: '' @ interp (sr_error res)),
                           isComplete := True\<rparr>, NoOutput)
                else if \<not> isSubscribed env AfterValidation then (st1, NoOutput)
                else exportBody ext env key (sr_scope res)
                       (st1\<lparr>status := ''Initializing Permit client...''\<rparr>)))"

text \<open>The state the component starts from.\<close>

definition initialState :: ExportState where
  "initialState = \<lparr>status = [], isComplete = False, error = None, warnings = []\<rparr>"

section \<open>The user attributes generator (UserAttributesGenerator.ts)\<close>

definition BUILTIN_USER_ATTRIBUTES :: "string list" where
  "BUILTIN_USER_ATTRIBUTES = [''key'', ''roles'', ''email'', ''first_name'', ''last_name'']"

record UserAttributeData =
  ua_resourceKey :: string
  ua_key :: string
  ua_type :: string
  ua_description :: string

text \<open>The entries the object literal \<^verbatim>\<open>typeMap\<close> is written with.  The table is
  read by these entries: the two lower-case names that every object inherits,
  \<^verbatim>\<open>constructor\<close> and \<^verbatim>\<open>__proto__\<close>, are no attribute types of the API and are
  taken as absent.\<close>

definition typeMap :: "(string \<times> string) list" where
  "typeMap =
     [(''string'', ''string''), (''number'', ''number''), (''boolean'', ''bool''),
      (''bool'', ''bool''), (''array'', ''array''), (''object'', ''json''),
      (''json'', ''json''), (''time'', ''string'')]"

definition normalizeAttributeType :: "string \<Rightarrow> warnings \<Rightarrow> string \<times> warnings" where
  "normalizeAttributeType ty w =
     (case map_of typeMap (toLowerCase ty) of
        None \<Rightarrow> (''string'', w @ [''Unknown attribute type: '' @ ty @ '', using 'string' as default''])
      | Some normalizedType \<Rightarrow> (normalizedType, w))"

text \<open>\<^verbatim>\<open>`user_${key.toLowerCase().replace(/[^a-z0-9_]/g, '_')}`\<close>\<close>

definition isLowerIdChar :: "char \<Rightarrow> bool" where
  "isLowerIdChar c =
     ((CHR ''a'' \<le> c \<and> c \<le> CHR ''z'') \<or> (CHR ''0'' \<le> c \<and> c \<le> CHR ''9'') \<or> c = CHR ''_'')"

definition generateResourceKey :: "string \<Rightarrow> string" where
  "generateResourceKey key =
     ''user_'' @ map (\<lambda>c. if isLowerIdChar c then c else CHR ''_'') (toLowerCase key)"

text \<open>The two filters of \<^verbatim>\<open>getUserAttributes\<close>.\<close>

definition notBuiltinKey :: "string \<times> attribute_block \<Rightarrow> bool" where
  "notBuiltinKey e = (fst e \<notin> set BUILTIN_USER_ATTRIBUTES)"

definition notBuiltinDescription :: "string \<times> attribute_block \<Rightarrow> bool" where
  "notBuiltinDescription e =
     (let description = toLowerCase (orEmpty (atb_description (snd e)))
      in \<not> includesStr description ''built in attribute''
         \<and> \<not> includesStr description ''built-in attribute'')"

text \<open>The \<^verbatim>\<open>map\<close> over the remaining entries; \<^verbatim>\<open>normalizeAttributeType\<close>
  appends its warnings in the entries' order.\<close>

fun toAttributeData ::
  "(string \<times> attribute_block) list \<Rightarrow> warnings \<Rightarrow> UserAttributeData list \<times> warnings" where
  "toAttributeData [] w = ([], w)"
| "toAttributeData (e # rest) w =
     (case normalizeAttributeType (atb_type (snd e)) w of
        (ty, w1) \<Rightarrow>
          (case toAttributeData rest w1 of
             (ds, w2) \<Rightarrow>
               (\<lparr>ua_resourceKey = generateResourceKey (fst e), ua_key = fst e, ua_type = ty,
                 ua_description = orEmpty (atb_description (snd e))\<rparr> # ds, w2)))"

definition getUserAttributes ::
  "permit_api \<Rightarrow> warnings \<Rightarrow> (js_error + UserAttributeData list) \<times> warnings" where
  "getUserAttributes api w =
     (case resources_get api ''__user'' of
        Inl err \<Rightarrow> (Inl err, w @ [''Error fetching user attributes: '' @ errMessage err])
      | Inr None \<Rightarrow> (Inr [], w)
      | Inr (Some userResource) \<Rightarrow>
          (case rs_attributes userResource of
             None \<Rightarrow> (Inr [], w)
           | Some attrs \<Rightarrow>
               (case toAttributeData (filter notBuiltinDescription (filter notBuiltinKey attrs)) w of
                  (ds, w') \<Rightarrow> (Inr ds, w'))))"

text \<open>\<^verbatim>\<open>generateHCL\<close>; the compiled Handlebars template is a parameter.\<close>

definition UserAttributesGenerator_generateHCL ::
  "(UserAttributeData list \<Rightarrow> string) \<Rightarrow> permit_api \<Rightarrow> warnings \<Rightarrow> string \<times> warnings" where
  "UserAttributesGenerator_generateHCL template api w =
     (case getUserAttributes api w of
        (Inl err, w1) \<Rightarrow> ([], w1 @ [''Failed to export user attributes: '' @ errMessage err])
      | (Inr attributes, w1) \<Rightarrow>
          if attributes = [] then ([], w1)
          else if trimIsEmpty (template attributes)
          then ([], w1 @ [''Failed to export user attributes: Generated HCL content is empty''])
          else (''\<newline># User Attributes\<newline>'' @ template attributes, w1))"

section \<open>The role derivation generator (\<^verbatim>\<open>RoleDerivationGenerator\<close>)\<close>

record RoleDerivationData =
  d_id :: string
  d_resource :: string
  d_role :: string
  d_linked_by :: string
  d_on_resource :: string
  d_to_role :: string
  d_dependencies :: "string list"

record ResourceData =
  rd_resource :: resource_read
  rd_roles :: "resource_role_read list"
  rd_relations :: "relation_read list"

record ResourceRelation =
  sourceResourceKey :: string
  targetResourceKey :: string
  relation :: relation_read

record TerraformRelationMapping =
  relationKey :: string
  sourceResource :: string
  targetResource :: string
  terraformResourceName :: string

text \<open>A \<^verbatim>\<open>Map\<close> that is iterated is the list of its entries in insertion order;
  \<^verbatim>\<open>set\<close> on a key that is present replaces the value where it stands.\<close>

fun mapSet :: "'k \<Rightarrow> 'v \<Rightarrow> ('k \<times> 'v) list \<Rightarrow> ('k \<times> 'v) list" where
  "mapSet k v [] = [(k, v)]"
| "mapSet k v (e # rest) = (if fst e = k then (k, v) # rest else e # mapSet k v rest)"

text \<open>\<^verbatim>\<open>Array.isArray(r) ? r : r?.data || []\<close>\<close>

fun relationsOf :: "relations_response \<Rightarrow> relation_read list" where
  "relationsOf (RelationsArray rs) = rs"
| "relationsOf (RelationsPage None) = []"
| "relationsOf (RelationsPage (Some rs)) = rs"

definition gatherFailed :: "string \<Rightarrow> js_error \<Rightarrow> string" where
  "gatherFailed key err =
     ''Failed to gather data for resource '' @ [CHR 0x27] @ key @ [CHR 0x27] @ '': ''
     @ errString err"

fun gatherLoop ::
  "permit_api \<Rightarrow> resource_read list \<Rightarrow> (string \<times> ResourceData) list \<Rightarrow> warnings
   \<Rightarrow> (string \<times> ResourceData) list \<times> warnings" where
  "gatherLoop api [] resourceMap w = (resourceMap, w)"
| "gatherLoop api (resource # rest) resourceMap w =
     (if rs_key resource = [] then gatherLoop api rest resourceMap w
      else case resourceRoles_list api (rs_key resource) of
             Inl err \<Rightarrow> gatherLoop api rest resourceMap (w @ [gatherFailed (rs_key resource) err])
           | Inr roles \<Rightarrow>
               (case resourceRelations_list api (rs_key resource) of
                  Inl err \<Rightarrow>
                    gatherLoop api rest resourceMap (w @ [gatherFailed (rs_key resource) err])
                | Inr relationsResponse \<Rightarrow>
                    gatherLoop api rest
                      (mapSet (rs_key resource)
                         \<lparr>rd_resource = resource, rd_roles = roles,
                          rd_relations = relationsOf relationsResponse\<rparr> resourceMap) w))"

definition gatherResourceData ::
  "permit_api \<Rightarrow> warnings \<Rightarrow> (string \<times> ResourceData) list \<times> warnings" where
  "gatherResourceData api w =
     (case resources_list api of
        Inl err \<Rightarrow> ([], w @ [''Failed to gather resources: '' @ errString err])
      | Inr resources \<Rightarrow> gatherLoop api resources [] w)"

definition completeRelation :: "relation_read \<Rightarrow> bool" where
  "completeRelation r =
     (rl_key r \<noteq> [] \<and> rl_subject_resource r \<noteq> [] \<and> rl_object_resource r \<noteq> [])"

definition getAllResourceRelations :: "(string \<times> ResourceData) list \<Rightarrow> ResourceRelation list" where
  "getAllResourceRelations resourceMap =
     concat (map (\<lambda>e. map (\<lambda>r. \<lparr>sourceResourceKey = rl_subject_resource r,
                                  targetResourceKey = rl_object_resource r, relation = r\<rparr>)
                        (filter completeRelation (rd_relations (snd e)))) resourceMap)"

definition generateTerraformRelationName :: "relation_read \<Rightarrow> js_error + string" where
  "generateTerraformRelationName r =
     (if rl_subject_resource r = [] \<or> rl_object_resource r = [] \<or> rl_key r = []
      then Inl (JsError ''Invalid relation: missing required properties'')
      else Inr (rl_subject_resource r @ ''_'' @ rl_object_resource r))"

text \<open>\<^verbatim>\<open>`${sourceResourceKey}:${relationKey}:${targetResourceKey}`\<close>\<close>

definition mappingKey :: "string \<Rightarrow> string \<Rightarrow> string \<Rightarrow> string" where
  "mappingKey source rel target = source @ '':'' @ rel @ '':'' @ target"

text \<open>\<^verbatim>\<open>relationMappings\<close> is only read with \<^verbatim>\<open>get\<close>: a map from the mapping key.\<close>

fun buildRelationMappingsLoop ::
  "ResourceRelation list \<Rightarrow> (string \<rightharpoonup> TerraformRelationMapping)
   \<Rightarrow> js_error + (string \<rightharpoonup> TerraformRelationMapping)" where
  "buildRelationMappingsLoop [] relationMappings = Inr relationMappings"
| "buildRelationMappingsLoop (x # rest) relationMappings =
     (if rl_key (relation x) = [] then buildRelationMappingsLoop rest relationMappings
      else case generateTerraformRelationName (relation x) of
             Inl err \<Rightarrow> Inl err
           | Inr name \<Rightarrow>
               buildRelationMappingsLoop rest
                 (relationMappings
                    (mappingKey (sourceResourceKey x) (rl_key (relation x)) (targetResourceKey x)
                     \<mapsto> \<lparr>relationKey = rl_key (relation x), sourceResource = sourceResourceKey x,
                         targetResource = targetResourceKey x, terraformResourceName = name\<rparr>)))"

definition buildRelationMappings ::
  "ResourceRelation list \<Rightarrow> js_error + (string \<rightharpoonup> TerraformRelationMapping)" where
  "buildRelationMappings relations = buildRelationMappingsLoop relations Map.empty"

text \<open>\<^verbatim>\<open>str.replace(/[^a-zA-Z0-9_]/g, '_').toLowerCase()\<close>\<close>

definition sanitizeId :: "string \<Rightarrow> string" where
  "sanitizeId str = toLowerCase (replaceNonId str)"

definition createDerivationId :: "string \<Rightarrow> string \<Rightarrow> string" where
  "createDerivationId sourceRole targetRole = sanitizeId sourceRole @ ''_to_'' @ sanitizeId targetRole"

text \<open>The three nested loops of \<^verbatim>\<open>generateDerivations\<close>, innermost first.  The state is
  the list \<^verbatim>\<open>derivations\<close> and the warning collector.\<close>

definition grantStep ::
  "(string \<rightharpoonup> TerraformRelationMapping) \<Rightarrow> string \<Rightarrow> resource_role_read \<Rightarrow> grant_info
   \<Rightarrow> RoleDerivationData list \<times> warnings \<Rightarrow> RoleDerivationData list \<times> warnings" where
  "grantStep relationMappings resourceKey role grantInfo acc =
     (if gr_role grantInfo = [] \<or> gr_on_resource grantInfo = []
         \<or> gr_linked_by_relation grantInfo = []
      then acc
      else
        (let sourceRoleKey = gr_role grantInfo;
             sourceResourceKey = gr_on_resource grantInfo;
             relationKey = gr_linked_by_relation grantInfo;
             targetResourceKey = resourceKey;
             targetRoleKey = rr_key role
         in case relationMappings (mappingKey sourceResourceKey relationKey targetResourceKey) of
              None \<Rightarrow>
                (fst acc,
                 snd acc @ [''Could not find relation mapping for ''
                            @ mappingKey sourceResourceKey relationKey targetResourceKey])
            | Some relationMapping \<Rightarrow>
                (fst acc @
                 [\<lparr>d_id = createDerivationId sourceRoleKey targetRoleKey,
                   d_resource = targetResourceKey,
                   d_role = sourceRoleKey,
                   d_linked_by = terraformResourceName relationMapping,
                   d_on_resource = sourceResourceKey,
                   d_to_role = targetRoleKey,
                   d_dependencies =
                     [''permitio_role.'' @ sourceRoleKey,
                      ''permitio_resource.'' @ sourceResourceKey,
                      ''permitio_role.'' @ targetRoleKey,
                      ''permitio_resource.'' @ targetResourceKey,
                      ''permitio_relation.'' @ terraformResourceName relationMapping]\<rparr>],
                 snd acc)))"

definition roleStep ::
  "(string \<rightharpoonup> TerraformRelationMapping) \<Rightarrow> string \<Rightarrow> resource_role_read
   \<Rightarrow> RoleDerivationData list \<times> warnings \<Rightarrow> RoleDerivationData list \<times> warnings" where
  "roleStep relationMappings resourceKey role acc =
     (if rr_key role = [] \<or> rr_users_with_role role = [] then acc
      else fold (grantStep relationMappings resourceKey role) (rr_users_with_role role) acc)"

definition resourceStep ::
  "(string \<rightharpoonup> TerraformRelationMapping) \<Rightarrow> string \<times> ResourceData
   \<Rightarrow> RoleDerivationData list \<times> warnings \<Rightarrow> RoleDerivationData list \<times> warnings" where
  "resourceStep relationMappings e acc =
     fold (roleStep relationMappings (fst e)) (rd_roles (snd e)) acc"

definition generateDerivations ::
  "(string \<times> ResourceData) list \<Rightarrow> warnings
   \<Rightarrow> (js_error + RoleDerivationData list) \<times> warnings" where
  "generateDerivations resourceMap w =
     (case buildRelationMappings (getAllResourceRelations resourceMap) of
        Inl err \<Rightarrow> (Inl err, w)
      | Inr relationMappings \<Rightarrow>
          (case fold (resourceStep relationMappings) resourceMap ([], w) of
             (derivations, w') \<Rightarrow> (Inr derivations, w')))"

definition RoleDerivationGenerator_generateHCL ::
  "(RoleDerivationData list \<Rightarrow> string) \<Rightarrow> permit_api \<Rightarrow> warnings \<Rightarrow> string \<times> warnings" where
  "RoleDerivationGenerator_generateHCL template api w =
     (case gatherResourceData api w of
        (resourceMap, w1) \<Rightarrow>
          if resourceMap = [] then ([], w1)
          else case generateDerivations resourceMap w1 of
                 (Inl err, w2) \<Rightarrow>
                   ([], w2 @ [''Failed to generate role derivations: '' @ errString err])
               | (Inr derivations, w2) \<Rightarrow>
                   if derivations = [] then ([], w2)
                   else (''\<newline># Role Derivations\<newline>'' @ template derivations, w2))"

section \<open>The user set generator (\<^verbatim>\<open>UserSetGenerator\<close>)\<close>

record UserSetData =
  us_key :: string
  us_name :: "string option"
  us_description :: "string option"
  us_conditions :: string
  us_resource :: string

text \<open>The \<^verbatim>\<open>map\<close> of \<^verbatim>\<open>generateHCL\<close>: no field is looked at before the set goes
  into the render model.\<close>

definition toUserSetData :: "externals \<Rightarrow> condition_set \<Rightarrow> UserSetData" where
  "toUserSetData ext s =
     \<lparr>us_key = createSafeId [orEmpty (cs_key s)],
      us_name = cs_name s,
      us_description = cs_description s,
      us_conditions = (case cs_conditions s of JStr c \<Rightarrow> c | c \<Rightarrow> stringifyCompact ext c),
      us_resource = orEmpty (cs_resource_id s)\<rparr>"

definition validSets :: "externals \<Rightarrow> condition_set list \<Rightarrow> UserSetData list" where
  "validSets ext conditionSets = map (toUserSetData ext) (userSetsOf conditionSets)"

definition UserSetGenerator_generateHCL ::
  "externals \<Rightarrow> (UserSetData list \<Rightarrow> string) \<Rightarrow> permit_api \<Rightarrow> warnings \<Rightarrow> string \<times> warnings" where
  "UserSetGenerator_generateHCL ext template api w =
     (case conditionSets_list api of
        Inl err \<Rightarrow> ([], w @ [''Failed to export user sets: '' @ errString err])
      | Inr conditionSets \<Rightarrow>
          if validSets ext conditionSets = [] then ([], w)
          else (''\<newline># User Sets\<newline>'' @ template (validSets ext conditionSets), w))"

section \<open>The condition set rule generator (\<^verbatim>\<open>ConditionSetGenerator\<close>)\<close>

record ConditionSetRuleData =
  crd_key :: string
  crd_userSet :: string
  crd_resourceSet :: string
  crd_permission :: "string option"
  crd_isAutogenerated :: bool

text \<open>What \<^verbatim>\<open>x.startsWith(...)\<close> throws when \<^verbatim>\<open>x\<close> is \<^verbatim>\<open>undefined\<close> (the wording
  is the runtime's).\<close>

definition startsWithOfUndefined :: js_error where
  "startsWithOfUndefined =
     JsTypeError ''Cannot read properties of undefined (reading 'startsWith')''"

definition ruleKeyOf :: "string \<Rightarrow> string \<Rightarrow> string option \<Rightarrow> string" where
  "ruleKeyOf userSetKey resourceSetKey permissionKey =
     createSafeId [userSetKey] @ ''_'' @ createSafeId [resourceSetKey] @ ''_''
     @ createSafeId [orEmpty permissionKey]"

subsection \<open>The paginated generator, with \<^verbatim>\<open>processConditionSetRule\<close>\<close>

text \<open>The sets \<^verbatim>\<open>availableUserSets\<close> and \<^verbatim>\<open>availableResourceSets\<close> are the lists of
  the keys they were built from.\<close>

definition processConditionSetRule ::
  "cs_rule \<Rightarrow> string option list \<Rightarrow> string option list \<Rightarrow> warnings
   \<Rightarrow> ConditionSetRuleData option \<times> warnings" where
  "processConditionSetRule rule availableUserSets availableResourceSets w =
     (case ru_user_set rule of
        None \<Rightarrow>
          (None, w @ [''Failed to process condition set rule: '' @ errString startsWithOfUndefined])
      | Some userSetKey \<Rightarrow>
          if startsWith userSetKey ''__autogen_'' \<and> Some userSetKey \<notin> set availableUserSets
          then (None, w)
          else
            (case ru_resource_set rule of
               None \<Rightarrow>
                 (None,
                  w @ [''Failed to process condition set rule: '' @ errString startsWithOfUndefined])
             | Some resourceSetKey \<Rightarrow>
                 if startsWith resourceSetKey ''__autogen_''
                    \<and> Some resourceSetKey \<notin> set availableResourceSets
                 then (None, w)
                 else
                   (Some \<lparr>crd_key = ruleKeyOf userSetKey resourceSetKey (ru_permission rule),
                           crd_userSet = userSetKey,
                           crd_resourceSet = resourceSetKey,
                           crd_permission = ru_permission rule,
                           crd_isAutogenerated =
                             (startsWith userSetKey ''__autogen_''
                              \<or> startsWith resourceSetKey ''__autogen_'')\<rparr>, w)))"

text \<open>\<^verbatim>\<open>rules.map(process).filter(rule => rule !== null)\<close>, with the warnings of the
  \<^verbatim>\<open>map\<close> in the rules' order.\<close>

fun mapRules ::
  "(cs_rule \<Rightarrow> warnings \<Rightarrow> ConditionSetRuleData option \<times> warnings) \<Rightarrow> cs_rule list \<Rightarrow> warnings
   \<Rightarrow> ConditionSetRuleData list \<times> warnings" where
  "mapRules process [] w = ([], w)"
| "mapRules process (rule # rest) w =
     (case process rule w of
        (None, w1) \<Rightarrow> mapRules process rest w1
      | (Some d, w1) \<Rightarrow> (case mapRules process rest w1 of (ds, w2) \<Rightarrow> (d # ds, w2)))"

definition perPage :: nat where
  "perPage = 100"

definition baseParams :: "(string \<times> js_param) list" where
  "baseParams =
     [(''tenant'', PStr []), (''subject'', PStr []), (''relation'', PStr []),
      (''object'', PStr []), (''objectType'', PStr []), (''subjectType'', PStr [])]"

definition pageParams :: "nat \<Rightarrow> (string \<times> js_param) list" where
  "pageParams currentPage = baseParams @ [(''page'', PNum currentPage), (''perPage'', PNum perPage)]"

text \<open>
  The \<^verbatim>\<open>while (hasMoreResults)\<close> loop.  Its state is \<^verbatim>\<open>allConditionSetRules\<close> and
  \<^verbatim>\<open>currentPage\<close>; the list requests issued so far are recorded beside it.  The loop
  runs for as long as the endpoint answers with full pages, so it need not return:
  \<^term>\<open>None\<close> stands for a run that never leaves it.
\<close>

partial_function (option) fetchAllPages ::
  "((string \<times> js_param) list \<Rightarrow> js_error + cs_rule list) \<Rightarrow> cs_rule list \<Rightarrow> nat
   \<Rightarrow> (string \<times> js_param) list list
   \<Rightarrow> ((js_error + cs_rule list) \<times> (string \<times> js_param) list list) option" where
  "fetchAllPages list allConditionSetRules currentPage requests =
     (case list (pageParams currentPage) of
        Inl err \<Rightarrow> Some (Inl err, requests @ [pageParams currentPage])
      | Inr pageResults \<Rightarrow>
          if pageResults \<noteq> []
          then (if length pageResults < perPage
                then Some (Inr (allConditionSetRules @ pageResults),
                           requests @ [pageParams currentPage])
                else fetchAllPages list (allConditionSetRules @ pageResults) (currentPage + 1)
                       (requests @ [pageParams currentPage]))
          else Some (Inr allConditionSetRules, requests @ [pageParams currentPage]))"

text \<open>What \<^verbatim>\<open>generateHCL\<close> does with the fetched rules.\<close>

definition renderFetchedRules ::
  "(ConditionSetRuleData list \<Rightarrow> string) \<Rightarrow> permit_api \<Rightarrow> warnings
   \<Rightarrow> js_error + cs_rule list \<Rightarrow> string \<times> warnings" where
  "renderFetchedRules template api w fetched =
     (case fetched of
        Inl err \<Rightarrow> ([], w @ [''Failed to export condition set rules: '' @ errString err])
      | Inr allConditionSetRules \<Rightarrow>
          (case conditionSets_list api of
             Inl err \<Rightarrow> ([], w @ [''Failed to export condition set rules: '' @ errString err])
           | Inr allConditionSets \<Rightarrow>
               if allConditionSetRules = [] then ([], w)
               else
                 (case mapRules
                         (\<lambda>rule. processConditionSetRule rule
                                    (map cs_key (userSetsOf allConditionSets))
                                    (map cs_key (resourceSetsOf allConditionSets)))
                         allConditionSetRules w of
                    (validRules, w') \<Rightarrow>
                      if validRules = [] then ([], w')
                      else (''\<newline># Condition Set Rules\<newline>'' @ template validRules, w'))))"

text \<open>\<^verbatim>\<open>generateHCL\<close>: the fragment, the warnings and the list requests issued.\<close>

definition ConditionSetGenerator_generateHCL ::
  "(ConditionSetRuleData list \<Rightarrow> string) \<Rightarrow> permit_api \<Rightarrow> warnings
   \<Rightarrow> ((string \<times> warnings) \<times> (string \<times> js_param) list list) option" where
  "ConditionSetGenerator_generateHCL template api w =
     (case fetchAllPages (conditionSetRules_list api) [] 1 [] of
        None \<Rightarrow> None
      | Some (fetched, requests) \<Rightarrow> Some (renderFetchedRules template api w fetched, requests))"

subsection \<open>The single-page generator\<close>

text \<open>The body of the \<^verbatim>\<open>map\<close> in the second \<^verbatim>\<open>ConditionSetGenerator\<close>: only the user
  set of a rule is checked, against the keys of all the condition sets.\<close>

definition processRuleUserSetOnly ::
  "cs_rule \<Rightarrow> string option list \<Rightarrow> warnings \<Rightarrow> ConditionSetRuleData option \<times> warnings" where
  "processRuleUserSetOnly rule availableUserSets w =
     (case ru_user_set rule of
        None \<Rightarrow>
          (None, w @ [''Failed to process condition set rule: '' @ errString startsWithOfUndefined])
      | Some userSetKey \<Rightarrow>
          if startsWith userSetKey ''__autogen_'' \<and> Some userSetKey \<notin> set availableUserSets
          then (None,
                w @ [''Skipping condition set rule referencing non-existent user set: ''
                     @ userSetKey])
          else
            (Some \<lparr>crd_key = ruleKeyOf userSetKey (orEmpty (ru_resource_set rule))
                               (ru_permission rule),
                    crd_userSet = createSafeId [userSetKey],
                    crd_resourceSet = createSafeId [orEmpty (ru_resource_set rule)],
                    crd_permission = ru_permission rule,
                    crd_isAutogenerated = startsWith userSetKey ''__autogen_''\<rparr>, w))"

definition ConditionSetGenerator_generateHCL_singlePage ::
  "(ConditionSetRuleData list \<Rightarrow> string) \<Rightarrow> permit_api \<Rightarrow> warnings \<Rightarrow> string \<times> warnings" where
  "ConditionSetGenerator_generateHCL_singlePage template api w =
     (case conditionSetRules_list api (pageParams 1) of
        Inl err \<Rightarrow> ([], w @ [''Failed to export condition set rules: '' @ errString err])
      | Inr conditionSetRules \<Rightarrow>
          (case conditionSets_list api of
             Inl err \<Rightarrow> ([], w @ [''Failed to export condition set rules: '' @ errString err])
           | Inr userSets \<Rightarrow>
               if conditionSetRules = [] then ([], w)
               else
                 (case mapRules (\<lambda>rule. processRuleUserSetOnly rule (map cs_key userSets))
                         conditionSetRules w of
                    (validRules, w') \<Rightarrow>
                      if validRules = [] then ([], w')
                      else (''\<newline># Condition Set Rules\<newline>'' @ template validRules, w'))))"

section \<open>Reference descriptions\<close>

text \<open>
  The statements about the role derivations compare \<^term>\<open>generateDerivations\<close> with a
  description grant by grant.  \<^verbatim>\<open>grantsOf\<close> lists, in the order of the loops, every
  grant that passes the guards: the resource \<^verbatim>\<open>R2\<close> and the key \<^verbatim>\<open>B\<close> of one of its
  roles, with an entry of that role's \<^verbatim>\<open>granted_to.users_with_role\<close> that names a role,
  a resource and a relation.
\<close>

definition completeGrant :: "grant_info \<Rightarrow> bool" where
  "completeGrant g =
     (gr_role g \<noteq> [] \<and> gr_on_resource g \<noteq> [] \<and> gr_linked_by_relation g \<noteq> [])"

definition grantsOfRole :: "string \<Rightarrow> resource_role_read \<Rightarrow> (string \<times> string \<times> grant_info) list" where
  "grantsOfRole R2 role =
     (if rr_key role = [] then []
      else map (\<lambda>g. (R2, rr_key role, g)) (filter completeGrant (rr_users_with_role role)))"

definition grantsOf :: "(string \<times> ResourceData) list \<Rightarrow> (string \<times> string \<times> grant_info) list" where
  "grantsOf resourceMap =
     concat (map (\<lambda>e. concat (map (grantsOfRole (fst e)) (rd_roles (snd e)))) resourceMap)"

text \<open>The relation blocks the generator knows: for every gathered relation with a key, a
  subject and an object, the mapping key and the block name \<^verbatim>\<open>subject_object\<close>; under a
  mapping key stored twice the later relation counts.\<close>

definition relationEntries :: "(string \<times> ResourceData) list \<Rightarrow> (string \<times> string) list" where
  "relationEntries resourceMap =
     map (\<lambda>r. (mappingKey (rl_subject_resource r) (rl_key r) (rl_object_resource r),
               rl_subject_resource r @ ''_'' @ rl_object_resource r))
       (concat (map (\<lambda>e. filter completeRelation (rd_relations (snd e))) resourceMap))"

definition relationName :: "(string \<times> ResourceData) list \<Rightarrow> string \<Rightarrow> string option" where
  "relationName resourceMap k = map_of (rev (relationEntries resourceMap)) k"

text \<open>The entry of a gathered relation, and what one turn of \<^verbatim>\<open>buildRelationMappings\<close>
  stores for it.\<close>

definition relationEntry :: "ResourceRelation \<Rightarrow> string \<times> string" where
  "relationEntry x =
     (mappingKey (sourceResourceKey x) (rl_key (relation x)) (targetResourceKey x),
      rl_subject_resource (relation x) @ ''_'' @ rl_object_resource (relation x))"

definition storeMapping ::
  "ResourceRelation \<Rightarrow> (string \<rightharpoonup> TerraformRelationMapping)
   \<Rightarrow> (string \<rightharpoonup> TerraformRelationMapping)" where
  "storeMapping x m =
     m(mappingKey (sourceResourceKey x) (rl_key (relation x)) (targetResourceKey x)
       \<mapsto> \<lparr>relationKey = rl_key (relation x), sourceResource = sourceResourceKey x,
           targetResource = targetResourceKey x,
           terraformResourceName =
             rl_subject_resource (relation x) @ ''_'' @ rl_object_resource (relation x)\<rparr>)"

text \<open>What one grant adds, given the block names by mapping key: the derivation with
  its dependency list when the relation block is known, else the warning.\<close>

definition grantDerivations ::
  "(string \<Rightarrow> string option) \<Rightarrow> string \<times> string \<times> grant_info \<Rightarrow> RoleDerivationData list" where
  "grantDerivations rn x =
     (case x of (R2, B, g) \<Rightarrow>
        (case rn (mappingKey (gr_on_resource g) (gr_linked_by_relation g) R2) of
           None \<Rightarrow> []
         | Some rel \<Rightarrow>
             [\<lparr>d_id = createDerivationId (gr_role g) B,
               d_resource = R2,
               d_role = gr_role g,
               d_linked_by = rel,
               d_on_resource = gr_on_resource g,
               d_to_role = B,
               d_dependencies =
                 [''permitio_role.'' @ gr_role g,
                  ''permitio_resource.'' @ gr_on_resource g,
                  ''permitio_role.'' @ B,
                  ''permitio_resource.'' @ R2,
                  ''permitio_relation.'' @ rel]\<rparr>]))"

definition grantWarnings ::
  "(string \<Rightarrow> string option) \<Rightarrow> string \<times> string \<times> grant_info \<Rightarrow> string list" where
  "grantWarnings rn x =
     (case x of (R2, B, g) \<Rightarrow>
        (case rn (mappingKey (gr_on_resource g) (gr_linked_by_relation g) R2) of
           None \<Rightarrow> [''Could not find relation mapping for ''
                     @ mappingKey (gr_on_resource g) (gr_linked_by_relation g) R2]
         | Some rel \<Rightarrow> []))"

text \<open>A paginated source that holds the given pages, numbered from 1, and answers an
  empty page beyond them.\<close>

definition pagedSource ::
  "cs_rule list list \<Rightarrow> (string \<times> js_param) list \<Rightarrow> js_error + cs_rule list" where
  "pagedSource pages params =
     (case map_of params ''page'' of
        Some (PNum p) \<Rightarrow> Inr (if 1 \<le> p \<and> p \<le> length pages then pages ! (p - 1) else [])
      | Some (PStr s) \<Rightarrow> Inr []
      | None \<Rightarrow> Inr [])"

section \<open>Example inputs\<close>

text \<open>A stand-in for \<^verbatim>\<open>JSON.stringify\<close>, exact on arrays of strings that need no
  escaping; the examples below need no more.\<close>

definition exampleExternals :: externals where
  \<open>exampleExternals =
     \<lparr>stringifyStrings = (\<lambda>xs. ''['' @ join '','' (map (\<lambda>s. ''"'' @ s @ ''"'') xs) @ '']''),
      stringifyPretty = (\<lambda>j. ''{}''),
      stringifyCompact = (\<lambda>j. ''{}''),
      stringifySet = (\<lambda>s. ''{}''),
      stringifyRule = (\<lambda>r. ''{}'')\<rparr>\<close>

text \<open>An environment without any entity, in which every endpoint answers.\<close>

definition emptyApi :: permit_api where
  "emptyApi =
     \<lparr>resources_list = Inr [],
      resources_get = (\<lambda>k. Inr None),
      resourceRelations_list = (\<lambda>k. Inr (RelationsArray [])),
      resourceRoles_list = (\<lambda>k. Inr []),
      roles_list = Inr [],
      resourceAttributes_list = (\<lambda>k. Inr []),
      conditionSets_list = Inr [],
      conditionSetRules_list = (\<lambda>p. Inr [])\<rparr>"

definition exampleScope :: scope_result where
  "exampleScope =
     \<lparr>valid = True, sr_error = None,
      sr_scope = Some \<lparr>sc_environment_id = Some ''env1'', sc_project_id = Some ''proj1'',
                       sc_organization_id = Some ''org1''\<rparr>\<rparr>"

text \<open>A run with the key given on the command line, a scope validation that accepts it,
  no output file, and no teardown.\<close>

definition exampleEnv :: "permit_api \<Rightarrow> run_env" where
  "exampleEnv api =
     \<lparr>apiKey = Some ''permit_key_abc'', authToken = None, filePath = None,
      validateApiKeyScope = (\<lambda>k kind. Inr exampleScope),
      permit = api, writeFile = (\<lambda>p t. None), isSubscribed = (\<lambda>c. True)\<rparr>"

text \<open>A folder and a document linked by the relation \<^verbatim>\<open>parent\<close>; the role
  \<^verbatim>\<open>Editor\<close> of the document is granted to the users with the role \<^verbatim>\<open>Admin\<close> on the
  parent folder, and through a relation \<^verbatim>\<open>owner\<close> that does not exist.\<close>

definition exampleResource :: "string \<Rightarrow> resource_read" where
  "exampleResource k =
     \<lparr>rs_key = k, rs_name = k, rs_description = None, rs_urn = None, rs_actions = [],
      rs_attributes = None\<rparr>"

definition exampleResourceMap :: "(string \<times> ResourceData) list" where
  "exampleResourceMap =
     [(''folder'',
       \<lparr>rd_resource = exampleResource ''folder'', rd_roles = [],
        rd_relations =
          [\<lparr>rl_key = ''parent'', rl_name = ''Parent'', rl_description = None,
            rl_subject_resource = ''folder'', rl_object_resource = ''document''\<rparr>]\<rparr>),
      (''document'',
       \<lparr>rd_resource = exampleResource ''document'',
        rd_roles =
          [\<lparr>rr_key = ''Editor'',
            rr_users_with_role =
              [\<lparr>gr_role = ''Admin'', gr_on_resource = ''folder'',
                gr_linked_by_relation = ''parent''\<rparr>,
               \<lparr>gr_role = ''Admin'', gr_on_resource = ''folder'',
                gr_linked_by_relation = ''owner''\<rparr>]\<rparr>],
        rd_relations = []\<rparr>)]"

text \<open>A user set without a name.\<close>

definition namelessUserSet :: condition_set where
  "namelessUserSet =
     \<lparr>cs_key = Some ''us1'', cs_name = None, cs_description = None, cs_type = ''userset'',
      cs_conditions = JObj [], cs_resource_id = None\<rparr>"

text \<open>A rule from a user set to an autogenerated resource set.\<close>

definition staleRule :: cs_rule where
  "staleRule =
     \<lparr>ru_user_set = Some ''us1'', ru_resource_set = Some ''__autogen_rs1'',
      ru_permission = Some ''document:read''\<rparr>"

definition exampleRule :: cs_rule where
  "exampleRule =
     \<lparr>ru_user_set = Some ''us1'', ru_resource_set = Some ''rs1'',
      ru_permission = Some ''document:read''\<rparr>"

text \<open>Pages of 100, 100 and 37 rules.\<close>

definition examplePages :: "cs_rule list list" where
  "examplePages = [replicate 100 exampleRule, replicate 100 exampleRule, replicate 37 exampleRule]"



section \<open>Properties of the sanitizer\<close>

lemma isIdChar_replace: "isIdChar (if isIdChar c then c else CHR ''_'')"
  by (simp add: isIdChar_def)

lemma replaceNonId_chars: "list_all isIdChar (replaceNonId s)"
  by (induction s) (simp_all add: replaceNonId_def isIdChar_replace)

lemma replaceNonId_fixed: "list_all isIdChar s \<Longrightarrow> replaceNonId s = s"
  by (induction s) (simp_all add: replaceNonId_def)

lemma join_chars:
  "list_all isIdChar sep \<Longrightarrow> list_all (list_all isIdChar) ps \<Longrightarrow> list_all isIdChar (join sep ps)"
  by (induction sep ps rule: join.induct) simp_all

lemma createSafeId_chars: "list_all isIdChar (createSafeId parts)"
proof -
  have "list_all (list_all isIdChar) (filter (\<lambda>p. p \<noteq> []) (map replaceNonId parts))"
    by (induction parts) (simp_all add: replaceNonId_chars)
  moreover have "list_all isIdChar ''_''"
    by (simp add: isIdChar_def)
  ultimately show ?thesis
    unfolding createSafeId_def by (simp add: join_chars)
qed

lemma createSafeId_single_fixed: "list_all isIdChar s \<Longrightarrow> createSafeId [s] = s"
  by (simp add: createSafeId_def replaceNonId_fixed)

text \<open>
  Claim C2.  Sanitizing a sanitized identifier changes nothing, for one string and for
  any list of parts; every character of the output is in \<^verbatim>\<open>[A-Za-z0-9_]\<close>, so the
  output matches \<^verbatim>\<open>^[A-Za-z0-9_]*$\<close>; the output is a function of the parts alone;
  and the parts \<^verbatim>\<open>"a-b"\<close>, \<^verbatim>\<open>"c d"\<close> give \<^verbatim>\<open>"a_b_c_d"\<close>.
\<close>

theorem createSafeId_idempotent:
  "createSafeId [createSafeId [x]] = createSafeId [x]
   \<and> createSafeId [createSafeId parts] = createSafeId parts
   \<and> list_all isIdChar (createSafeId parts)
   \<and> createSafeId [''a-b'', ''c d''] = ''a_b_c_d''"
proof -
  have ex: "createSafeId [''a-b'', ''c d''] = ''a_b_c_d''"
    by (simp add: createSafeId_def replaceNonId_def isIdChar_def)
  show ?thesis
    using createSafeId_single_fixed[OF createSafeId_chars] createSafeId_chars ex by blast
qed

section \<open>Properties of the export command\<close>

lemma addWarning_fields [simp]:
  "error (addWarning m st) = error st"
  "isComplete (addWarning m st) = isComplete st"
  "warnings (addWarning m st) = warnings st @ [m]"
  by (simp_all add: addWarning_def)

text \<open>The artifact only grows, and no loop of a phase touches the error field.\<close>

lemma fold_prefix:
  assumes "\<And>x acc. prefix (fst acc) (fst (step x acc))"
  shows "prefix (fst acc) (fst (fold step xs acc))"
proof (induction xs arbitrary: acc)
  case Nil
  then show ?case by simp
next
  case (Cons x xs)
  have "prefix (fst acc) (fst (step x acc))" by (rule assms)
  also have "prefix (fst (step x acc)) (fst (fold step xs (step x acc)))" by (rule Cons.IH)
  finally show ?case by simp
qed

lemma fold_error:
  assumes "\<And>x acc. error (snd (step x acc)) = error (snd acc)"
  shows "error (snd (fold step xs acc)) = error (snd acc)"
  by (induction xs arbitrary: acc) (simp_all add: assms)

lemma loopSection_prefix:
  assumes "\<And>x acc. prefix (fst acc) (fst (step x acc))"
  shows "prefix (fst acc) (fst (loopSection title step xs acc))"
proof (cases xs)
  case Nil
  then show ?thesis by (simp add: loopSection_def)
next
  case (Cons y ys)
  have "prefix (fst acc) (fst (fst acc @ title, snd acc))" by simp
  also have "prefix (fst (fst acc @ title, snd acc)) (fst (fold step xs (fst acc @ title, snd acc)))"
    using assms by (rule fold_prefix)
  finally show ?thesis using Cons by (simp add: loopSection_def)
qed

lemma loopSection_error:
  assumes "\<And>x acc. error (snd (step x acc)) = error (snd acc)"
  shows "error (snd (loopSection title step xs acc)) = error (snd acc)"
  using fold_error[of step, OF assms] by (simp add: loopSection_def)

lemma exportRelations_prefix: "prefix hcl (fst (exportRelations list vs hcl))"
proof (induction list vs hcl rule: exportRelations.induct)
  case (1 list hcl)
  then show ?case by simp
next
  case (2 list resource rest hcl)
  show ?case
  proof (cases rule: sum.exhaust[of "list (rs_key resource)"])
    case (Inl err)
    then show ?thesis by simp
  next
    case (Inr resp)
    show ?thesis
    proof (cases resp)
      case (RelationsArray relations)
      let ?h = "if relations \<noteq> []
             then hcl @ ''\<newline># Resource Relations for '' @ rs_key resource @ ''\<newline>''
                  @ concat (map (relationBlock resource) relations)
             else hcl"
      have "prefix hcl ?h" by simp
      also have "prefix ?h (fst (exportRelations list rest ?h))"
        using 2(1)[OF Inr RelationsArray] .
      finally show ?thesis using Inr RelationsArray by simp
    next
      case (RelationsPage d)
      then show ?thesis using 2(2)[OF Inr RelationsPage] Inr by simp
    qed
  qed
qed

lemma relationsPhase_prefix: "prefix hcl (fst (relationsPhase api vs hcl st))"
proof -
  obtain h e where r: "exportRelations (resourceRelations_list api) vs hcl = (h, e)"
    by (meson surj_pair)
  have "prefix hcl h"
    using exportRelations_prefix[of hcl "resourceRelations_list api" vs] r by simp
  then show ?thesis
    by (cases e) (simp_all add: relationsPhase_def r)
qed

lemma relationsPhase_error: "error (snd (relationsPhase api vs hcl st)) = error st"
proof -
  obtain h e where r: "exportRelations (resourceRelations_list api) vs hcl = (h, e)"
    by (meson surj_pair)
  show ?thesis
    by (cases e) (simp_all add: relationsPhase_def r)
qed

lemma rolesPhase_prefix: "prefix hcl (fst (rolesPhase ext api hcl st))"
  by (simp add: rolesPhase_def split: sum.splits)

lemma rolesPhase_error: "error (snd (rolesPhase ext api hcl st)) = error st"
  by (simp add: rolesPhase_def split: sum.splits)

lemma userAttributesPhase_prefix: "prefix hcl (fst (userAttributesPhase api hcl st))"
  by (simp add: userAttributesPhase_def split: sum.splits)

lemma userAttributesPhase_error: "error (snd (userAttributesPhase api hcl st)) = error st"
  by (simp add: userAttributesPhase_def split: sum.splits)

lemma steps_prefix:
  "prefix (fst acc) (fst (userSetStep ext s acc))"
  "prefix (fst acc) (fst (resourceSetStep ext s acc))"
  "prefix (fst acc) (fst (ruleStep ext r acc))"
  by (simp_all add: userSetStep_def resourceSetStep_def ruleStep_def)

lemma steps_error:
  "error (snd (userSetStep ext s acc)) = error (snd acc)"
  "error (snd (resourceSetStep ext s acc)) = error (snd acc)"
  "error (snd (ruleStep ext r acc)) = error (snd acc)"
  by (simp_all add: userSetStep_def resourceSetStep_def ruleStep_def)

lemma conditionSetsPhase_prefix: "prefix hcl (fst (conditionSetsPhase ext api hcl st))"
proof (cases rule: sum.exhaust[of "conditionSets_list api"])
  case (Inl err)
  then show ?thesis by (simp add: conditionSetsPhase_def)
next
  case (Inr conditionSets)
  define acc1 where "acc1 = loopSection ''\<newline># User Sets\<newline>'' (userSetStep ext)
                        (userSetsOf conditionSets) (hcl, st)"
  define acc2 where "acc2 = loopSection ''\<newline># Resource Sets\<newline>'' (resourceSetStep ext)
                        (resourceSetsOf conditionSets) acc1"
  have p1: "prefix hcl (fst acc1)"
    unfolding acc1_def
    using loopSection_prefix[of "userSetStep ext" "(hcl, st)"] by (simp add: steps_prefix)
  have p2: "prefix (fst acc1) (fst acc2)"
    unfolding acc2_def by (rule loopSection_prefix) (rule steps_prefix)
  have p12: "prefix hcl (fst acc2)"
    using p1 p2 by (rule prefix_order.trans)
  have p3: "prefix (fst acc2) (fst (loopSection t (ruleStep ext) rules (fst acc2, s)))" for t rules s
    using loopSection_prefix[of "ruleStep ext" "(fst acc2, s)"] by (simp add: steps_prefix)
  show ?thesis
    using p12 prefix_order.trans[OF p12 p3]
    by (simp add: conditionSetsPhase_def Inr Let_def acc1_def[symmetric] acc2_def[symmetric]
             split: sum.splits)
qed

lemma conditionSetsPhase_error: "error (snd (conditionSetsPhase ext api hcl st)) = error st"
  by (simp add: conditionSetsPhase_def Let_def loopSection_error steps_error split: sum.splits)

text \<open>The phases after the resources listing: whatever their endpoints answer or throw,
  the artifact is extended and the error field is left as it was.\<close>

lemma exportPhases_prefix_error:
  "prefix hcl (fst (exportPhases ext api vs hcl st))
   \<and> error (snd (exportPhases ext api vs hcl st)) = error st"
proof -
  let ?st1 = "st\<lparr>status := ''Exporting resource relations...''\<rparr>"
  obtain h2 s2 where r2: "relationsPhase api vs hcl ?st1 = (h2, s2)"
    by (meson surj_pair)
  let ?st2 = "s2\<lparr>status := ''Exporting roles...''\<rparr>"
  obtain h3 s3 where r3: "rolesPhase ext api h2 ?st2 = (h3, s3)"
    by (meson surj_pair)
  let ?st3 = "s3\<lparr>status := ''Exporting user attributes...''\<rparr>"
  obtain h4 s4 where r4: "userAttributesPhase api h3 ?st3 = (h4, s4)"
    by (meson surj_pair)
  let ?st4 = "s4\<lparr>status := ''Exporting condition sets...''\<rparr>"
  have "prefix hcl h2"
    using relationsPhase_prefix[of hcl api vs ?st1] by (simp add: r2)
  also have "prefix h2 h3"
    using rolesPhase_prefix[of h2 ext api ?st2] by (simp add: r3)
  also have "prefix h3 h4"
    using userAttributesPhase_prefix[of h3 api ?st3] by (simp add: r4)
  also have "prefix h4 (fst (conditionSetsPhase ext api h4 ?st4))"
    by (rule conditionSetsPhase_prefix)
  finally have p: "prefix hcl (fst (exportPhases ext api vs hcl st))"
    by (simp add: exportPhases_def r2 r3 r4)
  have "error s2 = error st"
    using relationsPhase_error[of api vs hcl ?st1] by (simp add: r2)
  moreover have "error s3 = error s2"
    using rolesPhase_error[of ext api h2 ?st2] by (simp add: r3)
  moreover have "error s4 = error s3"
    using userAttributesPhase_error[of api h3 ?st3] by (simp add: r4)
  ultimately have "error (snd (exportPhases ext api vs hcl st)) = error st"
    by (simp add: exportPhases_def r2 r3 r4 conditionSetsPhase_error)
  with p show ?thesis ..
qed

lemma writeSink_text: "sinkText (snd (writeSink env hcl st)) = Some t \<Longrightarrow> t = hcl"
  by (simp add: writeSink_def finishRun_def outerCatch_def Let_def split: if_splits option.splits)

lemma writeSink_writes:
  "isSubscribed env BeforeSink \<Longrightarrow> \<forall>p t. writeFile env p t = None
   \<Longrightarrow> sinkText (snd (writeSink env hcl st)) = Some hcl"
  by (simp add: writeSink_def finishRun_def Let_def)

lemma exportBody_text:
  assumes t: "sinkText (snd (exportBody ext env key sc st)) = Some t"
  shows "prefix (header key sc) t"
proof (cases rule: sum.exhaust[of "resources_list (permit env)"])
  case (Inl err)
  with t show ?thesis
    by (simp add: exportBody_def Let_def outerCatch_def split: if_splits)
next
  case (Inr resources)
  let ?st = "st\<lparr>status := ''Exporting resources...''\<rparr>"
  obtain h s where r: "exportPhases ext (permit env) (validResources resources)
          (header key sc @ resourcesSection (validResources resources)) ?st = (h, s)"
    by (meson surj_pair)
  have "t = h" using t Inr r by (simp add: exportBody_def Let_def writeSink_text)
  moreover have "prefix (header key sc @ resourcesSection (validResources resources)) h"
    using exportPhases_prefix_error[of "header key sc @ resourcesSection (validResources resources)"
        ext "permit env" "validResources resources" ?st]
    by (simp add: r)
  ultimately show ?thesis
    using append_prefixD by blast
qed

text \<open>A run whose key resolves and passes the scope validation goes on to the body.\<close>

lemma exportConfig_valid:
  assumes "truthy (resolveKey env)"
    and "validateApiKeyScope env (orEmpty (resolveKey env)) ''environment'' = Inr res"
    and "valid res" and "\<not> truthy (sr_error res)"
  shows "exportConfig ext env st =
     (if \<not> isSubscribed env AfterValidation
      then (st\<lparr>status := ''Validating API key...''\<rparr>, NoOutput)
      else exportBody ext env (orEmpty (resolveKey env)) (sr_scope res)
             (st\<lparr>status := ''Initializing Permit client...''\<rparr>))"
  using assms by (simp add: exportConfig_def Let_def)

text \<open>
  Claim C1.  The claim says that a failure of any generator, the resources listing
  included, ends as a warning and that the run goes on.  For the listing of the resources
  the code does otherwise: the call stands outside every inner \<^verbatim>\<open>try\<close>, so a run whose
  key resolves and passes the scope validation, and whose resources listing throws, ends
  in the error state, with no warning appended, no later phase run and nothing written.
\<close>

theorem resources_failure_is_fatal:
  assumes "truthy (resolveKey env)"
    and "validateApiKeyScope env (orEmpty (resolveKey env)) ''environment'' = Inr res"
    and "valid res" and "\<not> truthy (sr_error res)"
    and "isSubscribed env AfterValidation" and "isSubscribed env InCatch"
    and "resources_list (permit env) = Inl err"
  shows "exportConfig ext env st =
     (st\<lparr>status := ''Exporting resources...'',
          error := Some (''Failed to export configuration: '' @ errMessage err),
          isComplete := True\<rparr>, NoOutput)"
  using assms by (simp add: exportConfig_valid exportBody_def Let_def outerCatch_def)

theorem resources_failure_is_fatal_witness:
  "exportConfig exampleExternals
     (exampleEnv (emptyApi\<lparr>resources_list := Inl (JsError ''Request failed'')\<rparr>)) initialState =
   (\<lparr>status = ''Exporting resources...'', isComplete = True,
     error = Some ''Failed to export configuration: Request failed'', warnings = []\<rparr>, NoOutput)"
  using resources_failure_is_fatal[of
      "exampleEnv (emptyApi\<lparr>resources_list := Inl (JsError ''Request failed'')\<rparr>)"
      exampleScope "JsError ''Request failed''" exampleExternals initialState]
  by (simp add: exampleEnv_def emptyApi_def exampleScope_def resolveKey_def initialState_def)

text \<open>The sibling phases do what the claim says: the same failure of the roles listing is
  a warning, and the run completes and prints the artifact.  In general, once the
  resources are listed no phase can set the error field
  (\<open>exportPhases_prefix_error\<close>).\<close>

lemma roles_failure_is_warning:
  "exportConfig exampleExternals
     (exampleEnv (emptyApi\<lparr>roles_list := Inl (JsError ''Request failed'')\<rparr>)) initialState =
   (\<lparr>status = ''Exporting condition set rules...'', isComplete = True,
     error = None, warnings = [''Failed to export roles: Error: Request failed'']\<rparr>,
    Printed (header ''permit_key_abc'' (sr_scope exampleScope)))"
  by (simp add: exportConfig_def exportBody_def exportPhases_def relationsPhase_def rolesPhase_def
      userAttributesPhase_def conditionSetsPhase_def loopSection_def userSetsOf_def resourceSetsOf_def
      writeSink_def finishRun_def addWarning_def validResources_def resourcesSection_def
      exampleEnv_def emptyApi_def exampleScope_def resolveKey_def initialState_def Let_def)

text \<open>
  Claim C10.  In a run whose key resolves and passes the scope validation, every text
  handed to the sink, the file or standard output, starts with the comment lines and the
  \<^verbatim>\<open>terraform\<close> block followed by the provider block whose \<^verbatim>\<open>api_key\<close> value is the
  key of the run, character for character.  The sink is reached, so the key is written,
  whenever the resources listing answers, the run is not torn down on the way and the
  write does not fail.
\<close>

theorem artifact_header_holds_key:
  assumes "truthy (resolveKey env)"
    and "validateApiKeyScope env (orEmpty (resolveKey env)) ''environment'' = Inr res"
    and "valid res" and "\<not> truthy (sr_error res)"
  shows \<open>(\<forall>t. sinkText (snd (exportConfig ext env st)) = Some t \<longrightarrow>
            (\<exists>rest. t = preamble (sr_scope res) @ ''provider "permitio" {\<newline>  api_key = "''
                        @ orEmpty (resolveKey env) @ ''"\<newline>}\<newline>'' @ rest))
         \<and> (isSubscribed env AfterValidation \<and> isSubscribed env BeforeSink
            \<and> (\<exists>rs. resources_list (permit env) = Inr rs) \<and> (\<forall>p t. writeFile env p t = None)
            \<longrightarrow> sinkText (snd (exportConfig ext env st)) \<noteq> None)\<close>
proof (intro conjI allI impI)
  fix t
  assume t: "sinkText (snd (exportConfig ext env st)) = Some t"
  have "prefix (header (orEmpty (resolveKey env)) (sr_scope res)) t"
  proof (cases rule: bool.exhaust[of "isSubscribed env AfterValidation"])
    case True
    then show ?thesis
      using t exportConfig_valid[OF assms, of ext st] by (simp add: exportBody_text)
  next
    case False
    then show ?thesis
      using t exportConfig_valid[OF assms, of ext st] by simp
  qed
  then show \<open>\<exists>rest. t = preamble (sr_scope res) @ ''provider "permitio" {\<newline>  api_key = "''
                        @ orEmpty (resolveKey env) @ ''"\<newline>}\<newline>'' @ rest\<close>
    by (auto simp: prefix_def header_def)
next
  assume a: "isSubscribed env AfterValidation \<and> isSubscribed env BeforeSink
            \<and> (\<exists>rs. resources_list (permit env) = Inr rs) \<and> (\<forall>p t. writeFile env p t = None)"
  then obtain rs where rs: "resources_list (permit env) = Inr rs" by blast
  show "sinkText (snd (exportConfig ext env st)) \<noteq> None"
    using a rs exportConfig_valid[OF assms, of ext st]
    by (simp add: exportBody_def Let_def writeSink_writes split: prod.splits)
qed

theorem artifact_header_holds_key_witness:
  \<open>\<exists>rest. sinkText (snd (exportConfig exampleExternals (exampleEnv emptyApi) initialState)) =
      Some (preamble (sr_scope exampleScope)
            @ ''provider "permitio" {\<newline>  api_key = "permit_key_abc"\<newline>}\<newline>'' @ rest)\<close>
proof -
  have r: "resolveKey (exampleEnv emptyApi) = Some ''permit_key_abc''"
    by (simp add: resolveKey_def exampleEnv_def)
  have v: "validateApiKeyScope (exampleEnv emptyApi) (orEmpty (resolveKey (exampleEnv emptyApi)))
             ''environment'' = Inr exampleScope"
    by (simp add: exampleEnv_def)
  note th = artifact_header_holds_key[of "exampleEnv emptyApi" exampleScope exampleExternals
      initialState, OF _ v]
  have c: \<open>(\<forall>t. sinkText (snd (exportConfig exampleExternals (exampleEnv emptyApi) initialState))
                 = Some t \<longrightarrow>
            (\<exists>rest. t = preamble (sr_scope exampleScope) @ ''provider "permitio" {\<newline>  api_key = "''
                        @ ''permit_key_abc'' @ ''"\<newline>}\<newline>'' @ rest))
         \<and> sinkText (snd (exportConfig exampleExternals (exampleEnv emptyApi) initialState)) \<noteq> None\<close>
    using th by (simp add: r exampleScope_def) (simp add: exampleEnv_def emptyApi_def)
  then show ?thesis by auto
qed

section \<open>Properties of the user attributes generator\<close>








section \<open>The subject schema is no resource block\<close>












section \<open>Properties of the role derivation generator\<close>

lemma fold_append_steps:
  assumes "\<And>x acc. step x acc = (fst acc @ D x, snd acc @ W x)"
  shows "fold step xs acc = (fst acc @ concat (map D xs), snd acc @ concat (map W xs))"
  by (induction xs arbitrary: acc) (simp_all add: assms)


lemma buildRelationMappingsLoop_fold:
  "\<forall>x \<in> set xs. completeRelation (relation x)
   \<Longrightarrow> buildRelationMappingsLoop xs m = Inr (fold storeMapping xs m)"
  by (induction xs arbitrary: m)
     (simp_all add: completeRelation_def generateTerraformRelationName_def storeMapping_def)

lemma fold_storeMapping_names:
  "map_option terraformResourceName (fold storeMapping xs m k) =
     (case map_of (rev (map relationEntry xs)) k of
        Some n \<Rightarrow> Some n
      | None \<Rightarrow> map_option terraformResourceName (m k))"
proof (induction xs arbitrary: m)
  case Nil
  then show ?case by simp
next
  case (Cons x xs)
  have "map_option terraformResourceName (fold storeMapping (x # xs) m k) =
        map_option terraformResourceName (fold storeMapping xs (storeMapping x m) k)"
    by simp
  also have "\<dots> = (case map_of (rev (map relationEntry xs)) k of
                     Some n \<Rightarrow> Some n
                   | None \<Rightarrow> map_option terraformResourceName (storeMapping x m k))"
    by (rule Cons.IH)
  also have "\<dots> = (case map_of (rev (map relationEntry (x # xs))) k of
                     Some n \<Rightarrow> Some n
                   | None \<Rightarrow> map_option terraformResourceName (m k))"
    by (simp add: map_of_append map_add_def relationEntry_def storeMapping_def
        split: option.splits)
  finally show ?case .
qed

lemma relationEntries_eq:
  "relationEntries resourceMap = map relationEntry (getAllResourceRelations resourceMap)"
  by (simp add: relationEntries_def getAllResourceRelations_def relationEntry_def map_concat
      comp_def)

lemma getAllResourceRelations_complete:
  "\<forall>x \<in> set (getAllResourceRelations resourceMap). completeRelation (relation x)"
  by (auto simp: getAllResourceRelations_def)

lemma buildRelationMappings_names:
  "buildRelationMappings (getAllResourceRelations resourceMap)
     = Inr (fold storeMapping (getAllResourceRelations resourceMap) Map.empty)"
  "map_option terraformResourceName
     (fold storeMapping (getAllResourceRelations resourceMap) Map.empty k)
     = relationName resourceMap k"
  by (simp_all add: buildRelationMappings_def buildRelationMappingsLoop_fold
      getAllResourceRelations_complete fold_storeMapping_names relationName_def
      relationEntries_eq split: option.splits)


lemma grantStep_eq:
  assumes "\<And>k. map_option terraformResourceName (m k) = rn k"
  shows "grantStep m R2 role g acc =
     (fst acc @ (if completeGrant g then grantDerivations rn (R2, rr_key role, g) else []),
      snd acc @ (if completeGrant g then grantWarnings rn (R2, rr_key role, g) else []))"
proof -
  let ?k = "mappingKey (gr_on_resource g) (gr_linked_by_relation g) R2"
  show ?thesis
  proof (cases rule: option.exhaust[of "m ?k"])
    case None
    then have "rn ?k = None" using assms[of ?k] by simp
    with None show ?thesis
      by (simp add: grantStep_def completeGrant_def grantDerivations_def grantWarnings_def Let_def)
  next
    case (Some mp)
    then have "rn ?k = Some (terraformResourceName mp)" using assms[of ?k] by simp
    with Some show ?thesis
      by (simp add: grantStep_def completeGrant_def grantDerivations_def grantWarnings_def Let_def)
  qed
qed

lemma concat_map_if_filter:
  "concat (map (\<lambda>x. if P x then f x else []) xs) = concat (map f (filter P xs))"
  by (induction xs) simp_all

lemma concat_map_concat:
  "concat (map f (concat xss)) = concat (map (\<lambda>xs. concat (map f xs)) xss)"
  by (induction xss) simp_all

lemma roleStep_eq:
  assumes "\<And>k. map_option terraformResourceName (m k) = rn k"
  shows "roleStep m R2 role acc =
     (fst acc @ concat (map (grantDerivations rn) (grantsOfRole R2 role)),
      snd acc @ concat (map (grantWarnings rn) (grantsOfRole R2 role)))"
proof -
  have f: "fold (grantStep m R2 role) gs acc =
     (fst acc @ concat (map (\<lambda>g. grantDerivations rn (R2, rr_key role, g)) (filter completeGrant gs)),
      snd acc @ concat (map (\<lambda>g. grantWarnings rn (R2, rr_key role, g)) (filter completeGrant gs)))"
    for gs
    using fold_append_steps[of "grantStep m R2 role"
        "\<lambda>g. if completeGrant g then grantDerivations rn (R2, rr_key role, g) else []"
        "\<lambda>g. if completeGrant g then grantWarnings rn (R2, rr_key role, g) else []" gs acc,
        OF grantStep_eq[OF assms]]
    by (simp add: concat_map_if_filter)
  show ?thesis
    by (simp add: roleStep_def grantsOfRole_def f comp_def)
qed

lemma resourceStep_eq:
  assumes "\<And>k. map_option terraformResourceName (m k) = rn k"
  shows "resourceStep m e acc =
     (fst acc @ concat (map (grantDerivations rn) (concat (map (grantsOfRole (fst e)) (rd_roles (snd e))))),
      snd acc @ concat (map (grantWarnings rn) (concat (map (grantsOfRole (fst e)) (rd_roles (snd e))))))"
proof -
  have "fold (roleStep m (fst e)) (rd_roles (snd e)) acc =
     (fst acc @ concat (map (\<lambda>role. concat (map (grantDerivations rn) (grantsOfRole (fst e) role)))
                         (rd_roles (snd e))),
      snd acc @ concat (map (\<lambda>role. concat (map (grantWarnings rn) (grantsOfRole (fst e) role)))
                         (rd_roles (snd e))))"
    by (rule fold_append_steps) (rule roleStep_eq[OF assms])
  then show ?thesis
    by (simp add: resourceStep_def concat_map_concat comp_def)
qed

lemma generateDerivations_eq:
  "generateDerivations resourceMap w =
     (Inr (concat (map (grantDerivations (relationName resourceMap)) (grantsOf resourceMap))),
      w @ concat (map (grantWarnings (relationName resourceMap)) (grantsOf resourceMap)))"
proof -
  let ?m = "fold storeMapping (getAllResourceRelations resourceMap) Map.empty"
  let ?rn = "relationName resourceMap"
  have "fold (resourceStep ?m) resourceMap ([], w) =
     (concat (map (grantDerivations ?rn) (grantsOf resourceMap)),
      w @ concat (map (grantWarnings ?rn) (grantsOf resourceMap)))"
    using fold_append_steps[where step = "resourceStep ?m" and acc = "([], w)" and xs = resourceMap
        and D = "\<lambda>e. concat (map (grantDerivations ?rn)
                        (concat (map (grantsOfRole (fst e)) (rd_roles (snd e)))))"
        and W = "\<lambda>e. concat (map (grantWarnings ?rn)
                        (concat (map (grantsOfRole (fst e)) (rd_roles (snd e)))))",
        OF resourceStep_eq[where rn = ?rn, OF buildRelationMappings_names(2)]]
    by (simp add: grantsOf_def concat_map_concat comp_def)
  then show ?thesis
    by (simp add: generateDerivations_def buildRelationMappings_names(1))
qed


lemma generateDerivations_example:
  "generateDerivations exampleResourceMap [] =
     (Inr [\<lparr>d_id = ''admin_to_editor'', d_resource = ''document'', d_role = ''Admin'',
            d_linked_by = ''folder_document'', d_on_resource = ''folder'', d_to_role = ''Editor'',
            d_dependencies =
              [''permitio_role.Admin'', ''permitio_resource.folder'', ''permitio_role.Editor'',
               ''permitio_resource.document'', ''permitio_relation.folder_document'']\<rparr>],
      [''Could not find relation mapping for folder:owner:document''])"
  by (simp add: generateDerivations_def buildRelationMappings_def getAllResourceRelations_def
      exampleResourceMap_def completeRelation_def generateTerraformRelationName_def
      mappingKey_def resourceStep_def roleStep_def grantStep_def createDerivationId_def
      sanitizeId_def toLowerCase_def lowerChar_def replaceNonId_def isIdChar_def Let_def)

lemma createSafeId_single: "createSafeId [s] = replaceNonId s"
  by (simp add: createSafeId_def)

lemma grantsOf_iff:
  "(R2, B, g) \<in> set (grantsOf resourceMap) \<longleftrightarrow>
     (\<exists>dat role. (R2, dat) \<in> set resourceMap \<and> role \<in> set (rd_roles dat) \<and> rr_key role = B
        \<and> B \<noteq> [] \<and> g \<in> set (rr_users_with_role role)
        \<and> gr_role g \<noteq> [] \<and> gr_on_resource g \<noteq> [] \<and> gr_linked_by_relation g \<noteq> [])"
  by (force simp: grantsOf_def grantsOfRole_def completeGrant_def)

lemma relationName_iff:
  "relationName resourceMap k \<noteq> None \<longleftrightarrow>
     (\<exists>e \<in> set resourceMap. \<exists>r \<in> set (rd_relations (snd e)).
        rl_key r \<noteq> [] \<and> rl_subject_resource r \<noteq> [] \<and> rl_object_resource r \<noteq> []
        \<and> mappingKey (rl_subject_resource r) (rl_key r) (rl_object_resource r) = k)"
proof -
  have "relationName resourceMap k \<noteq> None \<longleftrightarrow> k \<in> fst ` set (relationEntries resourceMap)"
    by (simp add: relationName_def map_of_eq_None_iff)
  also have "\<dots> \<longleftrightarrow> (\<exists>e \<in> set resourceMap. \<exists>r \<in> set (rd_relations (snd e)).
        rl_key r \<noteq> [] \<and> rl_subject_resource r \<noteq> [] \<and> rl_object_resource r \<noteq> []
        \<and> mappingKey (rl_subject_resource r) (rl_key r) (rl_object_resource r) = k)"
    by (force simp: relationEntries_def completeRelation_def)
  finally show ?thesis .
qed

lemma derivation_id_of_grant:
  "d \<in> set (grantDerivations rn x) \<Longrightarrow> d_id d = createDerivationId (d_role d) (d_to_role d)"
  by (cases x) (auto simp: grantDerivations_def split: option.splits)

lemma colons_count:
  "length (filter (\<lambda>x. x = CHR '':'') (mappingKey a b c)) =
     length (filter (\<lambda>x. x = CHR '':'') a) + length (filter (\<lambda>x. x = CHR '':'') b)
     + length (filter (\<lambda>x. x = CHR '':'') c) + 2"
  by (simp add: mappingKey_def)

lemma no_colon_filter: "CHR '':'' \<notin> set a \<longleftrightarrow> filter (\<lambda>x. x = CHR '':'') a = []"
  by (auto simp: filter_empty_conv)

lemma colon_split:
  assumes "CHR '':'' \<notin> set a" and "CHR '':'' \<notin> set a'" and "a @ CHR '':'' # r = a' @ CHR '':'' # r'"
  shows "a = a' \<and> r = r'"
proof -
  have t: "CHR '':'' \<notin> set xs \<Longrightarrow> takeWhile (\<lambda>x. x \<noteq> CHR '':'') (xs @ CHR '':'' # ys) = xs"
    for xs ys
    by (induction xs) auto
  have "takeWhile (\<lambda>x. x \<noteq> CHR '':'') (a @ CHR '':'' # r) = a"
    using assms(1) by (rule t)
  moreover have "takeWhile (\<lambda>x. x \<noteq> CHR '':'') (a' @ CHR '':'' # r') = a'"
    using assms(2) by (rule t)
  ultimately have "a = a'" using assms(3) by simp
  with assms(3) show ?thesis by simp
qed

lemma mappingKey_inj:
  assumes "CHR '':'' \<notin> set a" and "CHR '':'' \<notin> set b" and "CHR '':'' \<notin> set c"
    and eq: "mappingKey a' b' c' = mappingKey a b c"
  shows "a' = a \<and> b' = b \<and> c' = c"
proof -
  have "length (filter (\<lambda>x. x = CHR '':'') (mappingKey a' b' c')) = 2"
    using assms by (simp add: colons_count no_colon_filter)
  then have n: "CHR '':'' \<notin> set a'" "CHR '':'' \<notin> set b'" "CHR '':'' \<notin> set c'"
    by (simp_all add: colons_count no_colon_filter)
  have 1: "a' = a \<and> b' @ CHR '':'' # c' = b @ CHR '':'' # c"
    using colon_split[OF n(1) assms(1)] eq by (simp add: mappingKey_def)
  then have "b' = b \<and> c' = c"
    using colon_split[OF n(2) assms(2), of c' c] by simp
  with 1 show ?thesis by simp
qed

lemma relationName_SomeD:
  assumes "relationName resourceMap k = Some name"
  shows "\<exists>e \<in> set resourceMap. \<exists>r \<in> set (rd_relations (snd e)).
           rl_key r \<noteq> [] \<and> rl_subject_resource r \<noteq> [] \<and> rl_object_resource r \<noteq> []
           \<and> mappingKey (rl_subject_resource r) (rl_key r) (rl_object_resource r) = k
           \<and> name = rl_subject_resource r @ ''_'' @ rl_object_resource r"
proof -
  have "(k, name) \<in> set (relationEntries resourceMap)"
    using assms map_of_SomeD[of "rev (relationEntries resourceMap)" k name]
    by (simp add: relationName_def)
  then show ?thesis
    by (force simp: relationEntries_def completeRelation_def)
qed

lemma relationName_exact:
  assumes "CHR '':'' \<notin> set R1" and "CHR '':'' \<notin> set rel" and "CHR '':'' \<notin> set R2"
  shows "relationName resourceMap (mappingKey R1 rel R2) =
     (if \<exists>e \<in> set resourceMap. \<exists>r \<in> set (rd_relations (snd e)).
            rl_subject_resource r = R1 \<and> rl_key r = rel \<and> rl_object_resource r = R2
            \<and> R1 \<noteq> [] \<and> rel \<noteq> [] \<and> R2 \<noteq> []
      then Some (R1 @ ''_'' @ R2) else None)"
proof (cases rule: option.exhaust[of "relationName resourceMap (mappingKey R1 rel R2)"])
  case None
  then have "\<not> (\<exists>e \<in> set resourceMap. \<exists>r \<in> set (rd_relations (snd e)).
        rl_key r \<noteq> [] \<and> rl_subject_resource r \<noteq> [] \<and> rl_object_resource r \<noteq> []
        \<and> mappingKey (rl_subject_resource r) (rl_key r) (rl_object_resource r) = mappingKey R1 rel R2)"
    using relationName_iff[of resourceMap "mappingKey R1 rel R2"] by simp
  then have "\<not> (\<exists>e \<in> set resourceMap. \<exists>r \<in> set (rd_relations (snd e)).
            rl_subject_resource r = R1 \<and> rl_key r = rel \<and> rl_object_resource r = R2
            \<and> R1 \<noteq> [] \<and> rel \<noteq> [] \<and> R2 \<noteq> [])"
    by blast
  with None show ?thesis by simp
next
  case (Some name)
  from relationName_SomeD[OF Some] obtain e r where
    er: "e \<in> set resourceMap" "r \<in> set (rd_relations (snd e))"
      "rl_key r \<noteq> []" "rl_subject_resource r \<noteq> []" "rl_object_resource r \<noteq> []"
      "mappingKey (rl_subject_resource r) (rl_key r) (rl_object_resource r) = mappingKey R1 rel R2"
      "name = rl_subject_resource r @ ''_'' @ rl_object_resource r"
    by blast
  have i: "rl_subject_resource r = R1 \<and> rl_key r = rel \<and> rl_object_resource r = R2"
    using mappingKey_inj[OF assms er(6)] .
  then have "\<exists>e \<in> set resourceMap. \<exists>r \<in> set (rd_relations (snd e)).
            rl_subject_resource r = R1 \<and> rl_key r = rel \<and> rl_object_resource r = R2
            \<and> R1 \<noteq> [] \<and> rel \<noteq> [] \<and> R2 \<noteq> []"
    using er by blast
  with Some er(7) i show ?thesis by simp
qed



text \<open>
  Claim C4.  \<^verbatim>\<open>generateDerivations\<close> never throws, and its output is settled grant by
  grant, in the order of the loops.  The grants are the triples of \<^verbatim>\<open>grantsOf\<close>: a role
  \<^verbatim>\<open>B\<close> with a key on a resource \<^verbatim>\<open>R2\<close> of the map, granted to the users with role
  \<^verbatim>\<open>A\<close> on \<^verbatim>\<open>R1\<close> linked by \<^verbatim>\<open>rel\<close>, all three given.  When the generator's lookup
  holds a relation block under the key \<^verbatim>\<open>R1:rel:R2\<close>, the grant adds one derivation and
  no warning, and the derivation's dependency list is, in this order, the role block of
  \<^verbatim>\<open>A\<close>, the resource block of \<^verbatim>\<open>R1\<close>, the role block of \<^verbatim>\<open>B\<close>, the resource block
  of \<^verbatim>\<open>R2\<close> and that relation block.  When the lookup holds none, the grant adds no
  derivation and the one warning.  The lookup holds a block under a key exactly when a
  gathered relation with key, subject and object has that mapping key; for keys without
  a colon that is: when a relation \<^verbatim>\<open>rel\<close> from \<^verbatim>\<open>R1\<close> to \<^verbatim>\<open>R2\<close> was gathered,
  and the block is then \<^verbatim>\<open>R1_R2\<close>.
\<close>

theorem role_derivation_dependencies:
  "generateDerivations resourceMap w =
     (Inr (concat (map (grantDerivations (relationName resourceMap)) (grantsOf resourceMap))),
      w @ concat (map (grantWarnings (relationName resourceMap)) (grantsOf resourceMap)))
   \<and> ((R2, B, \<lparr>gr_role = A, gr_on_resource = R1, gr_linked_by_relation = rel\<rparr>)
          \<in> set (grantsOf resourceMap) \<longleftrightarrow>
        (\<exists>dat role. (R2, dat) \<in> set resourceMap \<and> role \<in> set (rd_roles dat) \<and> rr_key role = B
           \<and> \<lparr>gr_role = A, gr_on_resource = R1, gr_linked_by_relation = rel\<rparr>
               \<in> set (rr_users_with_role role)
           \<and> A \<noteq> [] \<and> R1 \<noteq> [] \<and> B \<noteq> [] \<and> rel \<noteq> []))
   \<and> (case relationName resourceMap (R1 @ '':'' @ rel @ '':'' @ R2) of
        Some name \<Rightarrow>
          grantDerivations (relationName resourceMap)
              (R2, B, \<lparr>gr_role = A, gr_on_resource = R1, gr_linked_by_relation = rel\<rparr>) =
            [\<lparr>d_id = createDerivationId A B, d_resource = R2, d_role = A, d_linked_by = name,
              d_on_resource = R1, d_to_role = B,
              d_dependencies =
                [''permitio_role.'' @ A, ''permitio_resource.'' @ R1, ''permitio_role.'' @ B,
                 ''permitio_resource.'' @ R2, ''permitio_relation.'' @ name]\<rparr>]
          \<and> grantWarnings (relationName resourceMap)
              (R2, B, \<lparr>gr_role = A, gr_on_resource = R1, gr_linked_by_relation = rel\<rparr>) = []
      | None \<Rightarrow>
          grantDerivations (relationName resourceMap)
              (R2, B, \<lparr>gr_role = A, gr_on_resource = R1, gr_linked_by_relation = rel\<rparr>) = []
          \<and> grantWarnings (relationName resourceMap)
              (R2, B, \<lparr>gr_role = A, gr_on_resource = R1, gr_linked_by_relation = rel\<rparr>) =
            [''Could not find relation mapping for '' @ R1 @ '':'' @ rel @ '':'' @ R2])
   \<and> (relationName resourceMap k \<noteq> None \<longleftrightarrow>
        (\<exists>e \<in> set resourceMap. \<exists>r \<in> set (rd_relations (snd e)).
           rl_key r \<noteq> [] \<and> rl_subject_resource r \<noteq> [] \<and> rl_object_resource r \<noteq> []
           \<and> rl_subject_resource r @ '':'' @ rl_key r @ '':'' @ rl_object_resource r = k))
   \<and> (CHR '':'' \<notin> set R1 \<and> CHR '':'' \<notin> set rel \<and> CHR '':'' \<notin> set R2 \<longrightarrow>
        relationName resourceMap (R1 @ '':'' @ rel @ '':'' @ R2) =
          (if \<exists>e \<in> set resourceMap. \<exists>r \<in> set (rd_relations (snd e)).
                rl_subject_resource r = R1 \<and> rl_key r = rel \<and> rl_object_resource r = R2
                \<and> R1 \<noteq> [] \<and> rel \<noteq> [] \<and> R2 \<noteq> []
           then Some (R1 @ ''_'' @ R2) else None))"
proof (intro conjI)
  show "generateDerivations resourceMap w =
     (Inr (concat (map (grantDerivations (relationName resourceMap)) (grantsOf resourceMap))),
      w @ concat (map (grantWarnings (relationName resourceMap)) (grantsOf resourceMap)))"
    by (rule generateDerivations_eq)
next
  show "(R2, B, \<lparr>gr_role = A, gr_on_resource = R1, gr_linked_by_relation = rel\<rparr>)
          \<in> set (grantsOf resourceMap) \<longleftrightarrow>
        (\<exists>dat role. (R2, dat) \<in> set resourceMap \<and> role \<in> set (rd_roles dat) \<and> rr_key role = B
           \<and> \<lparr>gr_role = A, gr_on_resource = R1, gr_linked_by_relation = rel\<rparr>
               \<in> set (rr_users_with_role role)
           \<and> A \<noteq> [] \<and> R1 \<noteq> [] \<and> B \<noteq> [] \<and> rel \<noteq> [])"
    unfolding grantsOf_iff by auto
next
  show "case relationName resourceMap (R1 @ '':'' @ rel @ '':'' @ R2) of
        Some name \<Rightarrow>
          grantDerivations (relationName resourceMap)
              (R2, B, \<lparr>gr_role = A, gr_on_resource = R1, gr_linked_by_relation = rel\<rparr>) =
            [\<lparr>d_id = createDerivationId A B, d_resource = R2, d_role = A, d_linked_by = name,
              d_on_resource = R1, d_to_role = B,
              d_dependencies =
                [''permitio_role.'' @ A, ''permitio_resource.'' @ R1, ''permitio_role.'' @ B,
                 ''permitio_resource.'' @ R2, ''permitio_relation.'' @ name]\<rparr>]
          \<and> grantWarnings (relationName resourceMap)
              (R2, B, \<lparr>gr_role = A, gr_on_resource = R1, gr_linked_by_relation = rel\<rparr>) = []
      | None \<Rightarrow>
          grantDerivations (relationName resourceMap)
              (R2, B, \<lparr>gr_role = A, gr_on_resource = R1, gr_linked_by_relation = rel\<rparr>) = []
          \<and> grantWarnings (relationName resourceMap)
              (R2, B, \<lparr>gr_role = A, gr_on_resource = R1, gr_linked_by_relation = rel\<rparr>) =
            [''Could not find relation mapping for '' @ R1 @ '':'' @ rel @ '':'' @ R2]"
    by (simp add: grantDerivations_def grantWarnings_def mappingKey_def split: option.splits)
next
  show "relationName resourceMap k \<noteq> None \<longleftrightarrow>
        (\<exists>e \<in> set resourceMap. \<exists>r \<in> set (rd_relations (snd e)).
           rl_key r \<noteq> [] \<and> rl_subject_resource r \<noteq> [] \<and> rl_object_resource r \<noteq> []
           \<and> rl_subject_resource r @ '':'' @ rl_key r @ '':'' @ rl_object_resource r = k)"
    using relationName_iff[of resourceMap k] by (simp add: mappingKey_def)
next
  show "CHR '':'' \<notin> set R1 \<and> CHR '':'' \<notin> set rel \<and> CHR '':'' \<notin> set R2 \<longrightarrow>
        relationName resourceMap (R1 @ '':'' @ rel @ '':'' @ R2) =
          (if \<exists>e \<in> set resourceMap. \<exists>r \<in> set (rd_relations (snd e)).
                rl_subject_resource r = R1 \<and> rl_key r = rel \<and> rl_object_resource r = R2
                \<and> R1 \<noteq> [] \<and> rel \<noteq> [] \<and> R2 \<noteq> []
           then Some (R1 @ ''_'' @ R2) else None)"
    using relationName_exact[of R1 rel R2 resourceMap] by (simp add: mappingKey_def)
qed

lemma grantsOf_example:
  "grantsOf exampleResourceMap =
     [(''document'', ''Editor'',
       \<lparr>gr_role = ''Admin'', gr_on_resource = ''folder'', gr_linked_by_relation = ''parent''\<rparr>),
      (''document'', ''Editor'',
       \<lparr>gr_role = ''Admin'', gr_on_resource = ''folder'', gr_linked_by_relation = ''owner''\<rparr>)]"
  by (simp add: grantsOf_def grantsOfRole_def completeGrant_def exampleResourceMap_def)

lemma relationName_example:
  "relationName exampleResourceMap ''folder:parent:document'' = Some ''folder_document''"
  "relationName exampleResourceMap ''folder:owner:document'' = None"
  by (simp_all add: relationName_def relationEntries_def completeRelation_def mappingKey_def
      exampleResourceMap_def)

theorem role_derivation_dependencies_witness:
  "generateDerivations exampleResourceMap [] =
     (Inr [\<lparr>d_id = ''admin_to_editor'', d_resource = ''document'', d_role = ''Admin'',
            d_linked_by = ''folder_document'', d_on_resource = ''folder'', d_to_role = ''Editor'',
            d_dependencies =
              [''permitio_role.Admin'', ''permitio_resource.folder'', ''permitio_role.Editor'',
               ''permitio_resource.document'', ''permitio_relation.folder_document'']\<rparr>],
      [''Could not find relation mapping for folder:owner:document''])"
proof -
  have "generateDerivations exampleResourceMap [] =
     (Inr (concat (map (grantDerivations (relationName exampleResourceMap)) (grantsOf exampleResourceMap))),
      [] @ concat (map (grantWarnings (relationName exampleResourceMap)) (grantsOf exampleResourceMap)))"
    using role_derivation_dependencies[of exampleResourceMap "[]"] by blast
  then show ?thesis
    by (simp add: grantsOf_example grantDerivations_def grantWarnings_def mappingKey_def
        relationName_example createDerivationId_def sanitizeId_def toLowerCase_def lowerChar_def
        replaceNonId_def isIdChar_def)
qed

text \<open>
  Claim C5, as amended.  The identifier of every synthesized derivation from the source
  role \<^verbatim>\<open>S\<close> to the target role \<^verbatim>\<open>T\<close> is the sanitized \<^verbatim>\<open>S\<close> in lower case, then
  \<^verbatim>\<open>_to_\<close>, then the sanitized \<^verbatim>\<open>T\<close> in lower case: the generator has a sanitizer of
  its own, which lowers the result.
\<close>

theorem derivation_id_lowercased:
  assumes "generateDerivations resourceMap w = (Inr ds, w')" and "d \<in> set ds"
  shows "d_id d = toLowerCase (createSafeId [d_role d]) @ ''_to_''
                  @ toLowerCase (createSafeId [d_to_role d])"
proof -
  have "ds = concat (map (grantDerivations (relationName resourceMap)) (grantsOf resourceMap))"
    using assms(1) by (simp add: generateDerivations_eq)
  then obtain x where "d \<in> set (grantDerivations (relationName resourceMap) x)"
    using assms(2) by auto
  then have "d_id d = createDerivationId (d_role d) (d_to_role d)"
    by (rule derivation_id_of_grant)
  then show ?thesis
    by (simp add: createDerivationId_def sanitizeId_def createSafeId_single)
qed

theorem derivation_id_lowercased_witness:
  "d_id \<lparr>d_id = ''admin_to_editor'', d_resource = ''document'', d_role = ''Admin'',
         d_linked_by = ''folder_document'', d_on_resource = ''folder'', d_to_role = ''Editor'',
         d_dependencies =
           [''permitio_role.Admin'', ''permitio_resource.folder'', ''permitio_role.Editor'',
            ''permitio_resource.document'', ''permitio_relation.folder_document'']\<rparr>
     = toLowerCase (createSafeId [''Admin'']) @ ''_to_'' @ toLowerCase (createSafeId [''Editor''])"
  using derivation_id_lowercased[OF generateDerivations_example,
      of "\<lparr>d_id = ''admin_to_editor'', d_resource = ''document'', d_role = ''Admin'',
         d_linked_by = ''folder_document'', d_on_resource = ''folder'', d_to_role = ''Editor'',
         d_dependencies =
           [''permitio_role.Admin'', ''permitio_resource.folder'', ''permitio_role.Editor'',
            ''permitio_resource.document'', ''permitio_relation.folder_document'']\<rparr>"]
  by simp


text \<open>The identifier is not the one the claim states: for the roles \<^verbatim>\<open>Admin\<close> and
  \<^verbatim>\<open>Editor\<close> the generator writes \<^verbatim>\<open>admin_to_editor\<close>, and the sanitizer of the export
  command gives \<^verbatim>\<open>Admin_to_Editor\<close>.\<close>

theorem derivation_id_counterexample:
  "generateDerivations exampleResourceMap [] =
     (Inr [\<lparr>d_id = ''admin_to_editor'', d_resource = ''document'', d_role = ''Admin'',
            d_linked_by = ''folder_document'', d_on_resource = ''folder'', d_to_role = ''Editor'',
            d_dependencies =
              [''permitio_role.Admin'', ''permitio_resource.folder'', ''permitio_role.Editor'',
               ''permitio_resource.document'', ''permitio_relation.folder_document'']\<rparr>],
      [''Could not find relation mapping for folder:owner:document''])
   \<and> createSafeId [''Admin''] @ ''_to_'' @ createSafeId [''Editor''] = ''Admin_to_Editor''
   \<and> ''admin_to_editor'' \<noteq> ''Admin_to_Editor''"
  by (simp add: generateDerivations_example createSafeId_def replaceNonId_def isIdChar_def)

section \<open>Properties of the condition set rule generator\<close>

lemma perPage_pos: "0 < perPage" by (simp add: perPage_def)

lemma fetch_pages:
  assumes "\<And>i. i \<le> n \<Longrightarrow> list (pageParams (p + i)) = Inr (pg (p + i))"
      and "\<And>i. i < n \<Longrightarrow> perPage \<le> length (pg (p + i))"
      and "length (pg (p + n)) < perPage"
  shows "fetchAllPages list acc p reqs =
     Some (Inr (acc @ concat (map pg [p..<Suc (p + n)])), reqs @ map pageParams [p..<Suc (p + n)])"
  using assms
proof (induction n arbitrary: p acc reqs)
  case 0
  have l: "list (pageParams p) = Inr (pg p)" using 0(1)[of 0] by simp
  have s: "length (pg p) < perPage" using 0(3) by simp
  show ?case
    by (subst fetchAllPages.simps) (simp add: l s)
next
  case (Suc n)
  have l: "list (pageParams p) = Inr (pg p)" using Suc.prems(1)[of 0] by simp
  have f: "perPage \<le> length (pg p)" using Suc.prems(2)[of 0] by simp
  then have ne: "pg p \<noteq> []" using perPage_pos by auto
  have step: "fetchAllPages list acc p reqs =
      fetchAllPages list (acc @ pg p) (Suc p) (reqs @ [pageParams p])"
    using f ne by (subst fetchAllPages.simps) (simp add: l)
  have "fetchAllPages list (acc @ pg p) (Suc p) (reqs @ [pageParams p]) =
     Some (Inr ((acc @ pg p) @ concat (map pg [Suc p..<Suc (Suc p + n)])),
           (reqs @ [pageParams p]) @ map pageParams [Suc p..<Suc (Suc p + n)])"
  proof (rule Suc.IH)
    fix i assume "i \<le> n"
    then show "list (pageParams (Suc p + i)) = Inr (pg (Suc p + i))"
      using Suc.prems(1)[of "Suc i"] by simp
  next
    fix i assume "i < n"
    then show "perPage \<le> length (pg (Suc p + i))"
      using Suc.prems(2)[of "Suc i"] by simp
  next
    show "length (pg (Suc p + n)) < perPage" using Suc.prems(3) by simp
  qed
  moreover have "[p..<Suc (p + Suc n)] = p # [Suc p..<Suc (Suc p + n)]"
    by (simp add: upt_conv_Cons del: upt_Suc)
  ultimately show ?case
    by (simp add: step del: upt_Suc)
qed

lemma pagedSource_page:
  "pagedSource pages (pageParams i) = Inr (if 1 \<le> i \<and> i \<le> length pages then pages ! (i - 1) else [])"
  by (simp add: pagedSource_def pageParams_def baseParams_def)

lemma map_nth_shift: "map (\<lambda>i. xs ! (i - 1)) [1..<Suc (length xs)] = xs"
proof -
  have "map (\<lambda>i. xs ! (i - 1)) [Suc 0..<Suc (length xs)] = map ((\<lambda>i. xs ! (i - 1)) \<circ> Suc) [0..<length xs]"
    by (simp only: map_Suc_upt[symmetric] map_map)
  also have "\<dots> = map (\<lambda>i. xs ! i) [0..<length xs]" by (simp add: comp_def)
  also have "\<dots> = xs" by (rule map_nth)
  finally show ?thesis by simp
qed

lemma fetch_pagedSource:
  assumes "\<forall>pg \<in> set full. perPage \<le> length pg" and "length lastPage < perPage"
  shows "fetchAllPages (pagedSource (full @ [lastPage])) [] 1 [] =
     Some (Inr (concat full @ lastPage), map pageParams [1..<length full + 2])"
proof -
  let ?pages = "full @ [lastPage]"
  let ?pg = "\<lambda>i. ?pages ! (i - 1)"
  have "fetchAllPages (pagedSource ?pages) [] 1 [] =
     Some (Inr ([] @ concat (map ?pg [1..<Suc (1 + length full)])),
           [] @ map pageParams [1..<Suc (1 + length full)])"
  proof (rule fetch_pages)
    fix i assume "i \<le> length full"
    then show "pagedSource ?pages (pageParams (1 + i)) = Inr (?pages ! (1 + i - 1))"
      by (simp add: pagedSource_page)
  next
    fix i assume "i < length full"
    then show "perPage \<le> length (?pages ! (1 + i - 1))"
      using assms(1) by (simp add: nth_append)
  next
    show "length (?pages ! (1 + length full - 1)) < perPage"
      using assms(2) by simp
  qed
  moreover have "map ?pg [1..<Suc (1 + length full)] = ?pages"
    using map_nth_shift[of ?pages] by simp
  ultimately show ?thesis by simp
qed

text \<open>
  Claim C6.  Every list request asks for a page of 100.  Against a source that holds
  full pages (100 records or more) followed by a page that is not full, the loop asks for
  each of these pages once, in order, stops there, and returns all their records.  When
  the pages have 100, 100 and 37 records, the generator has issued exactly the three
  requests for the pages 1, 2 and 3 and holds exactly 237 records.
\<close>

theorem pagination_continues_while_full:
  "perPage = 100
   \<and> ((\<forall>pg \<in> set full. perPage \<le> length pg) \<and> length lastPage < perPage \<longrightarrow>
        fetchAllPages (pagedSource (full @ [lastPage])) [] 1 [] =
          Some (Inr (concat full @ lastPage), map pageParams [1..<length full + 2]))
   \<and> (conditionSetRules_list api = pagedSource pages \<and> map length pages = [100, 100, 37] \<longrightarrow>
        (\<exists>requests.
           ConditionSetGenerator_generateHCL template api w =
             Some (renderFetchedRules template api w (Inr (concat pages)), requests)
           \<and> length (concat pages) = 237
           \<and> requests = [pageParams 1, pageParams 2, pageParams 3] \<and> length requests = 3))"
proof (intro conjI impI)
  show "perPage = 100" by (simp add: perPage_def)
next
  assume "(\<forall>pg \<in> set full. perPage \<le> length pg) \<and> length lastPage < perPage"
  then show "fetchAllPages (pagedSource (full @ [lastPage])) [] 1 [] =
          Some (Inr (concat full @ lastPage), map pageParams [1..<length full + 2])"
    using fetch_pagedSource[of full lastPage] by simp
next
  assume a: "conditionSetRules_list api = pagedSource pages \<and> map length pages = [100, 100, 37]"
  then obtain p1 p2 p3 where p: "pages = [p1, p2, p3]"
    and l: "length p1 = 100" "length p2 = 100" "length p3 = 37"
    by (auto simp: map_eq_Cons_conv)
  have "fetchAllPages (pagedSource ([p1, p2] @ [p3])) [] 1 [] =
          Some (Inr (concat [p1, p2] @ p3), map pageParams [1..<length [p1, p2] + 2])"
    using l by (intro fetch_pagedSource) (simp_all add: perPage_def)
  moreover have "[1..<length [p1, p2] + 2] = [1, 2, Suc 2]"
    by (simp add: upt_conv_Cons)
  ultimately have "fetchAllPages (pagedSource pages) [] 1 [] =
          Some (Inr (concat pages), [pageParams 1, pageParams 2, pageParams 3])"
    by (simp add: p numeral_2_eq_2 numeral_3_eq_3)
  then show "\<exists>requests.
           ConditionSetGenerator_generateHCL template api w =
             Some (renderFetchedRules template api w (Inr (concat pages)), requests)
           \<and> length (concat pages) = 237
           \<and> requests = [pageParams 1, pageParams 2, pageParams 3] \<and> length requests = 3"
    using a l by (simp add: ConditionSetGenerator_generateHCL_def p)
qed

theorem pagination_continues_while_full_witness:
  "\<exists>requests.
     ConditionSetGenerator_generateHCL (\<lambda>rules. [])
         (emptyApi\<lparr>conditionSetRules_list := pagedSource examplePages\<rparr>) [] =
       Some (renderFetchedRules (\<lambda>rules. [])
               (emptyApi\<lparr>conditionSetRules_list := pagedSource examplePages\<rparr>) []
               (Inr (concat examplePages)), requests)
     \<and> length (concat examplePages) = 237 \<and> length requests = 3"
proof -
  have "conditionSetRules_list (emptyApi\<lparr>conditionSetRules_list := pagedSource examplePages\<rparr>)
          = pagedSource examplePages \<and> map length examplePages = [100, 100, 37]"
    by (simp add: examplePages_def)
  from mp[OF pagination_continues_while_full[of "[]" "[]"
        "emptyApi\<lparr>conditionSetRules_list := pagedSource examplePages\<rparr>" examplePages
        "\<lambda>rules. []" "[]", THEN conjunct2, THEN conjunct2] this]
  obtain requests where
    "ConditionSetGenerator_generateHCL (\<lambda>rules. [])
         (emptyApi\<lparr>conditionSetRules_list := pagedSource examplePages\<rparr>) [] =
       Some (renderFetchedRules (\<lambda>rules. [])
               (emptyApi\<lparr>conditionSetRules_list := pagedSource examplePages\<rparr>) []
               (Inr (concat examplePages)), requests)"
    "length (concat examplePages) = 237" "length requests = 3"
    by (elim exE conjE)
  then show ?thesis by (intro exI conjI)
qed

text \<open>
  Claim C8.  The claim holds in the paginated generator
  (\<open>paginated_generator_excludes_stale\<close>) and fails in the single-page generator, which
  checks the user set of a rule only: a rule whose resource set is autogenerated and not
  among the fetched condition sets is rendered.
\<close>

theorem stale_resource_set_rule_is_rendered:
  "ConditionSetGenerator_generateHCL_singlePage template
       (emptyApi\<lparr>conditionSetRules_list := (\<lambda>p. Inr [staleRule])\<rparr>) w =
     (''\<newline># Condition Set Rules\<newline>''
      @ template [\<lparr>crd_key = ''us1___autogen_rs1_document_read'', crd_userSet = ''us1'',
                   crd_resourceSet = ''__autogen_rs1'', crd_permission = Some ''document:read'',
                   crd_isAutogenerated = False\<rparr>], w)"
  by (simp add: ConditionSetGenerator_generateHCL_singlePage_def processRuleUserSetOnly_def
      staleRule_def emptyApi_def startsWith_def ruleKeyOf_def createSafeId_def replaceNonId_def
      isIdChar_def)

lemma processConditionSetRule_excludes_stale:
  assumes "(\<exists>u. ru_user_set rule = Some u \<and> startsWith u ''__autogen_'' \<and> Some u \<notin> set availableUserSets)
         \<or> (\<exists>r. ru_resource_set rule = Some r \<and> startsWith r ''__autogen_''
                  \<and> Some r \<notin> set availableResourceSets)"
  shows "fst (processConditionSetRule rule availableUserSets availableResourceSets w) = None"
  using assms
  by (auto simp: processConditionSetRule_def split: option.splits)

lemma mapRules_sound:
  assumes "mapRules process rules w = (ds, w')" and "d \<in> set ds"
  shows "\<exists>rule \<in> set rules. \<exists>w0. fst (process rule w0) = Some d"
  using assms
proof (induction rules arbitrary: w ds w')
  case Nil
  then show ?case by simp
next
  case (Cons rule rest)
  obtain r w1 where p: "process rule w = (r, w1)" by (meson surj_pair)
  show ?case
  proof (cases r)
    case None
    with p Cons.prems have "mapRules process rest w1 = (ds, w')" by simp
    from Cons.IH[OF this Cons.prems(2)] show ?thesis by auto
  next
    case (Some d0)
    obtain ds1 w2 where m: "mapRules process rest w1 = (ds1, w2)" by (meson surj_pair)
    with p Some Cons.prems have ds: "ds = d0 # ds1" by simp
    show ?thesis
    proof (cases rule: bool.exhaust[of "d = d0"])
      case True
      then have "fst (process rule w) = Some d" using p Some by simp
      then show ?thesis by auto
    next
      case False
      then have "d \<in> set ds1" using ds Cons.prems(2) by simp
      from Cons.IH[OF m this] show ?thesis by auto
    qed
  qed
qed

lemma paginated_generator_excludes_stale:
  assumes "mapRules (\<lambda>rule. processConditionSetRule rule availableUserSets availableResourceSets)
             rules w = (ds, w')"
    and "d \<in> set ds"
  shows "\<exists>rule \<in> set rules. \<exists>u r.
           ru_user_set rule = Some u \<and> ru_resource_set rule = Some r
           \<and> crd_userSet d = u \<and> crd_resourceSet d = r
           \<and> (startsWith u ''__autogen_'' \<longrightarrow> Some u \<in> set availableUserSets)
           \<and> (startsWith r ''__autogen_'' \<longrightarrow> Some r \<in> set availableResourceSets)"
proof -
  from mapRules_sound[OF assms] obtain rule w0 where
    r: "rule \<in> set rules"
    and p: "fst (processConditionSetRule rule availableUserSets availableResourceSets w0) = Some d"
    by blast
  from p have "\<exists>u r.
           ru_user_set rule = Some u \<and> ru_resource_set rule = Some r
           \<and> crd_userSet d = u \<and> crd_resourceSet d = r
           \<and> (startsWith u ''__autogen_'' \<longrightarrow> Some u \<in> set availableUserSets)
           \<and> (startsWith r ''__autogen_'' \<longrightarrow> Some r \<in> set availableResourceSets)"
    by (auto simp: processConditionSetRule_def split: option.splits if_splits)
  with r show ?thesis by blast
qed

lemma paginated_generator_drops_stale_rule:
  "ConditionSetGenerator_generateHCL template
       (emptyApi\<lparr>conditionSetRules_list := pagedSource [[staleRule]]\<rparr>) w =
     Some (([], w), [pageParams 1])"
proof -
  have "fetchAllPages (pagedSource ([] @ [[staleRule]])) [] 1 [] =
          Some (Inr (concat [] @ [staleRule]), map pageParams [1..<length ([]::cs_rule list list) + 2])"
    by (rule fetch_pagedSource) (simp_all add: perPage_def)
  then have "fetchAllPages (pagedSource [[staleRule]]) [] 1 [] = Some (Inr [staleRule], [pageParams 1])"
    by (simp add: upt_conv_Cons)
  then show ?thesis
    by (simp add: ConditionSetGenerator_generateHCL_def renderFetchedRules_def emptyApi_def
        processConditionSetRule_def staleRule_def startsWith_def userSetsOf_def resourceSetsOf_def)
qed

section \<open>Validation of condition sets\<close>

text \<open>
  Claim C7.  The claim holds in the export command (\<open>user_sets_loop\<close>,
  \<open>resource_sets_loop\<close>) and fails in \<^verbatim>\<open>UserSetGenerator\<close>, which puts every user
  set into the render model without looking at its fields: a user set without a name is
  rendered, and no warning is appended.
\<close>

theorem nameless_user_set_is_rendered:
  "UserSetGenerator_generateHCL ext template
       (emptyApi\<lparr>conditionSets_list := Inr [namelessUserSet]\<rparr>) w =
     (''\<newline># User Sets\<newline>''
      @ template [\<lparr>us_key = ''us1'', us_name = None, us_description = None,
                   us_conditions = stringifyCompact ext (JObj []), us_resource = []\<rparr>], w)"
  by (simp add: UserSetGenerator_generateHCL_def validSets_def userSetsOf_def toUserSetData_def
      namelessUserSet_def createSafeId_def replaceNonId_def isIdChar_def)

lemma user_sets_loop:
  "fst (fold (userSetStep ext) sets acc) =
     fst acc @ concat (map (\<lambda>s. if truthy (cs_key s) \<and> truthy (cs_name s)
                                 then userSetBlock ext s else []) sets)
   \<and> warnings (snd (fold (userSetStep ext) sets acc)) =
     warnings (snd acc) @ concat (map (\<lambda>s. if truthy (cs_key s) \<and> truthy (cs_name s) then []
                                 else [''Invalid user set data: '' @ stringifySet ext s]) sets)"
  by (induction sets arbitrary: acc) (simp_all add: userSetStep_def)

lemma resource_sets_loop:
  "fst (fold (resourceSetStep ext) sets acc) =
     fst acc @ concat (map (\<lambda>s. if truthy (cs_key s) \<and> truthy (cs_name s) \<and> truthy (cs_resource_id s)
                                 then resourceSetBlock ext s else []) sets)
   \<and> warnings (snd (fold (resourceSetStep ext) sets acc)) =
     warnings (snd acc) @ concat (map (\<lambda>s. if truthy (cs_key s) \<and> truthy (cs_name s)
                                          \<and> truthy (cs_resource_id s) then []
                                 else [''Invalid resource set data: '' @ stringifySet ext s]) sets)"
  by (induction sets arbitrary: acc) (simp_all add: resourceSetStep_def)

lemma export_command_skips_nameless_user_set:
  "conditionSetsPhase ext (emptyApi\<lparr>conditionSets_list := Inr [namelessUserSet]\<rparr>) hcl st =
     (hcl @ ''\<newline># User Sets\<newline>'',
      st\<lparr>warnings := warnings st @ [''Invalid user set data: '' @ stringifySet ext namelessUserSet],
          status := ''Exporting condition set rules...''\<rparr>)"
  by (simp add: conditionSetsPhase_def loopSection_def userSetsOf_def resourceSetsOf_def
      userSetStep_def namelessUserSet_def emptyApi_def addWarning_def Let_def)

end
